theory Spec2Isabelle
  imports
    Complex_Main
    "HOL-Library.AList"
    "HOL-Library.Char_ord"
    "HOL-Library.List_Lexorder"
    "HOL-Library.Sublist"
begin

section \<open>The dynamic planner of SAM's orchestration framework\<close>

text \<open>
  A shallow embedding of \<^verbatim>\<open>src/sam/orchestration/planner.py\<close> (class
  \<^verbatim>\<open>DynamicPlanner\<close>). Methods keep their names, without the leading underscore.
  The planner object is a record that every method takes and, when it mutates the object,
  returns. What the planner's collaborators answer during one call of
  \<^verbatim>\<open>create_plan\<close> (the curriculum, the language model, the two clocks) is an
  explicit input of that call. An exception is a value: a method that can raise returns
  \<open>exn + 'a\<close>, with \<open>Inl\<close> for the exception.
\<close>

subsection \<open>Python strings\<close>

text \<open>
  A Python \<^verbatim>\<open>str\<close> is a \<open>string\<close>; a character stands for the code point of
  the same number (0 to 255).
\<close>

text \<open>\<^verbatim>\<open>str.lower()\<close>: the upper-case letters below code point 256 are A to Z and
  the range 192 to 222 without the multiplication sign 215.\<close>

definition lower_char :: "char \<Rightarrow> char" where
  "lower_char c =
     (let n = (of_char c :: nat)
      in if (65 \<le> n \<and> n \<le> 90) \<or> (192 \<le> n \<and> n \<le> 222 \<and> n \<noteq> 215)
         then char_of (n + 32) else c)"

definition lower :: "string \<Rightarrow> string" where
  "lower s = map lower_char s"

text \<open>\<^verbatim>\<open>str.isspace()\<close> on one character, and \<^verbatim>\<open>str.strip()\<close>.\<close>

definition isspace :: "char \<Rightarrow> bool" where
  "isspace c =
     (let n = (of_char c :: nat)
      in (9 \<le> n \<and> n \<le> 13) \<or> (28 \<le> n \<and> n \<le> 32) \<or> n = 133 \<or> n = 160)"

definition strip :: "string \<Rightarrow> string" where
  "strip s = rev (dropWhile isspace (rev (dropWhile isspace s)))"

text \<open>\<^verbatim>\<open>s.find(c)\<close> and \<^verbatim>\<open>s.rfind(c)\<close> for a one-character \<open>c\<close>:
  the first and the last index of \<open>c\<close>, or \<open>-1\<close>.\<close>

definition find_char :: "string \<Rightarrow> char \<Rightarrow> int" where
  "find_char s c =
     (if c \<in> set s then int (length (takeWhile (\<lambda>x. x \<noteq> c) s)) else - 1)"

definition rfind_char :: "string \<Rightarrow> char \<Rightarrow> int" where
  "rfind_char s c =
     (if c \<in> set s
      then int (length s) - 1 - int (length (takeWhile (\<lambda>x. x \<noteq> c) (rev s)))
      else - 1)"

text \<open>\<^verbatim>\<open>s[i:j]\<close> for \<open>0 \<le> i \<le> j\<close>, the only slices the planner takes.\<close>

definition slice :: "string \<Rightarrow> int \<Rightarrow> int \<Rightarrow> string" where
  "slice s i j = take (nat (j - i)) (drop (nat i) s)"

text \<open>\<^verbatim>\<open>s.startswith(p)\<close> and the substring test \<^verbatim>\<open>sub in s\<close>.\<close>

fun startswith :: "string \<Rightarrow> string \<Rightarrow> bool" where
  "startswith s [] = True"
| "startswith [] (p # ps) = False"
| "startswith (c # cs) (p # ps) = (c = p \<and> startswith cs ps)"

fun contains :: "string \<Rightarrow> string \<Rightarrow> bool" where
  "contains [] sub = (sub = [])"
| "contains (c # cs) sub = (startswith (c # cs) sub \<or> contains cs sub)"

text \<open>\<^verbatim>\<open>sep.join(parts)\<close>.\<close>

fun join :: "string \<Rightarrow> string list \<Rightarrow> string" where
  "join sep [] = []"
| "join sep [x] = x"
| "join sep (x # y # ys) = x @ sep @ join sep (y # ys)"

text \<open>\<^verbatim>\<open>str(n)\<close> of an integer, in decimal.\<close>

fun digits :: "nat \<Rightarrow> string" where
  "digits n =
     (if n < 10 then [char_of (48 + n)]
      else digits (n div 10) @ [char_of (48 + n mod 10)])"

definition str_int :: "int \<Rightarrow> string" where
  "str_int i = (if i < 0 then CHR ''-'' # digits (nat (- i)) else digits (nat i))"

text \<open>\<^verbatim>\<open>sum(1 for indicator in indicators if indicator in query_lower)\<close>.\<close>

definition count_indicators :: "string \<Rightarrow> string list \<Rightarrow> nat" where
  "count_indicators query_lower indicators = length (filter (contains query_lower) indicators)"

subsection \<open>Retrieval mode and traversal depth\<close>

definition graph_indicators :: "string list" where
  "graph_indicators =
     [''how'', ''why'', ''what causes'', ''relationship'', ''connection'', ''related to'',
      ''because'', ''leads to'', ''results in'', ''depends on'', ''influences'',
      ''who works'', ''where is'', ''when did'', ''which company'', ''what technology'',
      ''connects'', ''links'', ''associates'', ''correlates'', ''impacts'']"

definition vector_indicators :: "string list" where
  "vector_indicators =
     [''similar to'', ''like'', ''about'', ''regarding'', ''concerning'',
      ''find documents'', ''search for'', ''show me'', ''tell me about'',
      ''content'', ''text'', ''document'', ''file'', ''information'']"

definition hybrid_indicators :: "string list" where
  "hybrid_indicators =
     [''explain'', ''analyze'', ''compare'', ''contrast'', ''overview'',
      ''summary'', ''comprehensive'', ''detailed'', ''complete picture'',
      ''understand'', ''breakdown'', ''elaborate'', ''describe fully'']"

definition graph_score :: "string \<Rightarrow> nat" where
  "graph_score query_lower = count_indicators query_lower graph_indicators"

definition vector_score :: "string \<Rightarrow> nat" where
  "vector_score query_lower = count_indicators query_lower vector_indicators"

definition hybrid_score :: "string \<Rightarrow> nat" where
  "hybrid_score query_lower = count_indicators query_lower hybrid_indicators"

text \<open>\<^verbatim>\<open>_determine_retrieval_mode\<close>; the first argument is the truth value of
  \<^verbatim>\<open>self._graph_database\<close>.\<close>

definition determine_retrieval_mode :: "bool \<Rightarrow> string \<Rightarrow> string" where
  "determine_retrieval_mode graph_database query_lower =
     (if \<not> graph_database then ''VECTOR''
      else if hybrid_score query_lower > 0
              \<or> (graph_score query_lower > 0 \<and> vector_score query_lower > 0)
      then ''HYBRID''
      else if graph_score query_lower > vector_score query_lower then ''GRAPH''
      else if vector_score query_lower > 0 then ''VECTOR''
      else ''AUTO'')"

definition deep_indicators :: "string list" where
  "deep_indicators =
     [''comprehensive'', ''complete'', ''all'', ''everything'', ''thorough'',
      ''detailed'', ''full picture'', ''entire'', ''whole'', ''extensive'']"

definition multi_hop_depth_indicators :: "string list" where
  "multi_hop_depth_indicators =
     [''chain'', ''sequence'', ''path'', ''route'', ''journey'', ''process'',
      ''step by step'', ''how does'', ''what leads'', ''cascade'', ''ripple'']"

definition simple_indicators :: "string list" where
  "simple_indicators =
     [''direct'', ''immediate'', ''first'', ''primary'', ''main'', ''basic'']"

text \<open>\<^verbatim>\<open>_determine_graph_depth\<close>.\<close>

definition determine_graph_depth :: "string \<Rightarrow> int" where
  "determine_graph_depth query_lower =
     (let deep_count = count_indicators query_lower deep_indicators;
          multi_hop_count = count_indicators query_lower multi_hop_depth_indicators;
          simple_count = count_indicators query_lower simple_indicators
      in if deep_count > 0 then 4
         else if multi_hop_count > 0 then 3
         else if simple_count > 0 then 1
         else 2)"

subsection \<open>Python values and exceptions\<close>

text \<open>
  A Python float is a finite value (the real number it denotes; a float literal of the
  source denotes itself) or one of the three special values.
\<close>

datatype pyfloat = Finite real | PosInf | NegInf | NaN

text \<open>
  The values that \<^verbatim>\<open>json.loads\<close> produces, which are also the values held by the
  request's intermediate-data bag: \<^verbatim>\<open>None\<close>, booleans, integers, floats, strings,
  lists, and dictionaries with string keys (in insertion order).
\<close>

datatype json =
    JNull
  | JBool bool
  | JInt int
  | JFloat pyfloat
  | JStr string
  | JArr "json list"
  | JObj "(string \<times> json) list"

text \<open>The exception classes that occur; all derive from \<^verbatim>\<open>Exception\<close>. An
  exception carries its message, \<^verbatim>\<open>str(e)\<close>.\<close>

datatype exn_class =
    JSONDecodeError | KeyError | TypeError | ValueError | OverflowError
  | AttributeError | RuntimeError | RecursionError

datatype exn = Exn (exn_class: exn_class) (exn_msg: string)

definition type_name :: "json \<Rightarrow> string" where
  "type_name v =
     (case v of JNull \<Rightarrow> ''NoneType'' | JBool _ \<Rightarrow> ''bool'' | JInt _ \<Rightarrow> ''int''
      | JFloat _ \<Rightarrow> ''float'' | JStr _ \<Rightarrow> ''str'' | JArr _ \<Rightarrow> ''list''
      | JObj _ \<Rightarrow> ''dict'')"

text \<open>The text \<open>s\<close> between single quotes, as the interpreter's messages quote a name.\<close>

definition quoted :: "string \<Rightarrow> string" where
  "quoted s = [CHR 0x27] @ s @ [CHR 0x27]"

text \<open>\<^verbatim>\<open>d.get(key)\<close> on a dictionary value.\<close>

definition get_item :: "json \<Rightarrow> string \<Rightarrow> json option" where
  "get_item v key = (case v of JObj d \<Rightarrow> map_of d key | _ \<Rightarrow> None)"

text \<open>\<^verbatim>\<open>v[key] = x\<close> with a string key: updates a dictionary, raises
  \<^verbatim>\<open>TypeError\<close> on every other value.\<close>

definition set_item :: "json \<Rightarrow> string \<Rightarrow> json \<Rightarrow> exn + json" where
  "set_item v key x =
     (case v of
        JObj d \<Rightarrow> Inr (JObj (AList.update key x d))
      | JArr _ \<Rightarrow> Inl (Exn TypeError ''list indices must be integers or slices, not str'')
      | _ \<Rightarrow> Inl (Exn TypeError
                (quoted (type_name v) @ '' object does not support item assignment'')))"

text \<open>Truth value of a Python value.\<close>

definition truthy :: "json \<Rightarrow> bool" where
  "truthy v =
     (case v of JNull \<Rightarrow> False | JBool b \<Rightarrow> b | JInt i \<Rightarrow> i \<noteq> 0
      | JFloat f \<Rightarrow> f \<noteq> Finite 0 | JStr s \<Rightarrow> s \<noteq> [] | JArr xs \<Rightarrow> xs \<noteq> []
      | JObj d \<Rightarrow> d \<noteq> [])"

text \<open>\<^verbatim>\<open>v > 0.5\<close>: defined on numbers and booleans, \<^verbatim>\<open>TypeError\<close> otherwise.\<close>

definition gt_half :: "json \<Rightarrow> exn + bool" where
  "gt_half v =
     (case v of
        JBool b \<Rightarrow> Inr b
      | JInt i \<Rightarrow> Inr (real_of_int i > 0.5)
      | JFloat (Finite r) \<Rightarrow> Inr (r > 0.5)
      | JFloat PosInf \<Rightarrow> Inr True
      | JFloat NegInf \<Rightarrow> Inr False
      | JFloat NaN \<Rightarrow> Inr False
      | _ \<Rightarrow> Inl (Exn TypeError
                (quoted ''>'' @ '' not supported between instances of ''
                 @ quoted (type_name v) @ '' and '' @ quoted ''float'')))"

text \<open>Whether \<^verbatim>\<open>f"{v:.2f}"\<close> raises: numbers and booleans format (an integer is
  converted to a float first, which overflows from \<open>2^1024 - 2^970\<close> on), a string gives
  \<^verbatim>\<open>ValueError\<close>, the other values \<^verbatim>\<open>TypeError\<close>.\<close>

definition format_2f :: "json \<Rightarrow> exn + unit" where
  "format_2f v =
     (case v of
        JBool _ \<Rightarrow> Inr ()
      | JInt i \<Rightarrow>
          (if \<bar>i\<bar> \<ge> 2 ^ 1024 - 2 ^ 970
           then Inl (Exn OverflowError ''int too large to convert to float'')
           else Inr ())
      | JFloat _ \<Rightarrow> Inr ()
      | JStr _ \<Rightarrow>
          Inl (Exn ValueError
                (''Unknown format code '' @ quoted ''f'' @ '' for object of type ''
                 @ quoted ''str''))
      | _ \<Rightarrow> Inl (Exn TypeError
                (''unsupported format string passed to '' @ type_name v @ ''.__format__'')))"

text \<open>Whether a confidence value lies in the closed interval from 0 to 1
  (\<^verbatim>\<open>True\<close> is 1 and \<^verbatim>\<open>False\<close> is 0).\<close>

definition in_unit_interval :: "json \<Rightarrow> bool" where
  "in_unit_interval v =
     (case v of
        JBool _ \<Rightarrow> True
      | JInt i \<Rightarrow> 0 \<le> i \<and> i \<le> 1
      | JFloat (Finite r) \<Rightarrow> 0 \<le> r \<and> r \<le> 1
      | _ \<Rightarrow> False)"

subsection \<open>The data model\<close>

text \<open>What the planner reads of a skill module.\<close>

record skill =
  skill_name :: string
  skill_version :: string
  skill_description :: string
  required_inputs :: "string list"
  output_keys :: "string list"
  skill_category :: string

record sof_config =
  enable_plan_caching :: bool
  plan_cache_ttl :: real
  max_plan_length :: int

text \<open>\<^verbatim>\<open>PlanCacheEntry\<close>; its plan and confidence fields are named
  \<open>cached_plan\<close> and \<open>cached_confidence\<close>. A point in time (a
  \<^verbatim>\<open>datetime\<close>) is a whole number of microseconds.\<close>

record PlanCacheEntry =
  cached_plan :: "string list"
  cached_confidence :: json
  created_at :: int
  usage_count :: int
  query_hash :: string
  skill_context :: string

record PlanGenerationResult =
  plan :: "string list"
  confidence :: json
  reasoning :: json
  cache_hit :: bool
  generation_time :: real
  fallback_used :: bool

text \<open>
  The planner object. \<open>registered_skills\<close> is the dictionary from names to skills in
  insertion order, \<open>plan_cache\<close> the dictionary from query hashes to entries;
  \<open>curriculum\<close>, \<open>llm_model\<close> and \<open>graph_database\<close> are the truth values of
  the three collaborator attributes.
\<close>

record planner =
  config :: sof_config
  registered_skills :: "(string \<times> skill) list"
  plan_cache :: "string \<rightharpoonup> PlanCacheEntry"
  curriculum :: bool
  llm_model :: bool
  graph_database :: bool

text \<open>The request (\<^verbatim>\<open>SAM_UIF\<close>): the fields the planner reads and writes.\<close>

record uif =
  input_query :: string
  active_profile :: string
  intermediate_data :: "(string \<times> json) list"
  curriculum_level :: "string option"
  complexity_score :: "real option"
  reasoning_strategy :: "string option"
  estimated_effort :: "int option"

text \<open>The \<^verbatim>\<open>ReasoningPlan\<close> that the curriculum collaborator returns;
  \<open>level_value\<close> is \<^verbatim>\<open>curriculum_level.value\<close> as text.\<close>

record ReasoningPlan =
  skills :: "string list"
  level_value :: string
  plan_complexity_score :: real
  confidence_threshold :: pyfloat
  plan_reasoning_strategy :: string
  plan_estimated_effort :: int

text \<open>
  The places where \<^verbatim>\<open>create_plan\<close> reads \<^verbatim>\<open>datetime.now()\<close>: when the
  looked-up entry is checked, when a new entry is stored, and in the sweep once for each
  entry, named by its key. And the places where it reads \<^verbatim>\<open>time.time()\<close>.
\<close>

datatype clock_point = AtLookup | AtStore | AtSweep string

datatype timer_point = AtStart | AtEnd | AtHandler

text \<open>
  What the outside world answers during one call of \<^verbatim>\<open>create_plan\<close>: the readings
  of the two clocks, the outcome of \<^verbatim>\<open>generate_reasoning_plan\<close>, and the outcome of
  the model's \<^verbatim>\<open>generate\<close> (a model that returns something other than a string
  makes \<^verbatim>\<open>response.strip()\<close> raise, which is the \<open>Inl\<close> case here).
\<close>

record env =
  datetime_now :: "clock_point \<Rightarrow> int"
  time_time :: "timer_point \<Rightarrow> real"
  curriculum_result :: "exn + ReasoningPlan"
  llm_response :: "exn + string"

subsection \<open>The skill registry\<close>

definition registered :: "planner \<Rightarrow> string \<Rightarrow> bool" where
  "registered P name = (name \<in> set (map fst (registered_skills P)))"

definition register_skill :: "planner \<Rightarrow> skill \<Rightarrow> planner" where
  "register_skill P s =
     P\<lparr>registered_skills := AList.update (skill_name s) s (registered_skills P)\<rparr>"

definition register_skills :: "planner \<Rightarrow> skill list \<Rightarrow> planner" where
  "register_skills P ss = foldl register_skill P ss"

text \<open>\<^verbatim>\<open>_generate_skill_context\<close>. Every name comes from the dictionary's keys, so
  the lookup of its skill succeeds.\<close>

definition skill_signature :: "(string \<times> skill) list \<Rightarrow> string \<Rightarrow> string" where
  "skill_signature reg name =
     (case map_of reg name of
        Some s \<Rightarrow> name @ '':'' @ skill_version s
      | None \<Rightarrow> [])"

definition generate_skill_context :: "planner \<Rightarrow> string" where
  "generate_skill_context P =
     join ''|'' (map (skill_signature (registered_skills P))
                     (sort (map fst (registered_skills P))))"

text \<open>
  \<^verbatim>\<open>_generate_query_hash\<close>. The parameter \<open>H\<close> stands for the library part,
  \<^verbatim>\<open>hashlib.md5(f"{query}|{profile}|{names}".encode()).hexdigest()\<close>, as a function of
  the query, the profile and the sorted names.
\<close>

definition generate_query_hash ::
  "(string \<Rightarrow> string \<Rightarrow> string list \<Rightarrow> string) \<Rightarrow> planner \<Rightarrow> uif \<Rightarrow> string" where
  "generate_query_hash H P u =
     H (input_query u) (active_profile u) (sort (map fst (registered_skills P)))"

subsection \<open>The plan cache\<close>

text \<open>
  \<^verbatim>\<open>timedelta.total_seconds()\<close> of a difference of so many microseconds: the float
  nearest to their number divided by \<open>10^6\<close> (the difference of two readings of the
  clock is exact, and the quotient of the two integers is rounded once). The parameter
  \<open>R\<close> stands for the rounding of a real number to the nearest float.
\<close>

definition total_seconds :: "(real \<Rightarrow> real) \<Rightarrow> int \<Rightarrow> real" where
  "total_seconds R microseconds = R (real_of_int microseconds / 1000000)"

text \<open>\<^verbatim>\<open>_is_cache_entry_valid\<close>, with the reading of \<^verbatim>\<open>datetime.now()\<close>.\<close>

definition is_cache_entry_valid ::
  "(real \<Rightarrow> real) \<Rightarrow> planner \<Rightarrow> int \<Rightarrow> PlanCacheEntry \<Rightarrow> bool" where
  "is_cache_entry_valid R P now entry =
     (let age = now - created_at entry
      in if total_seconds R age > plan_cache_ttl (config P) then False
         else if skill_context entry \<noteq> generate_skill_context P then False
         else True)"

text \<open>\<^verbatim>\<open>_check_plan_cache\<close>: the entry returned, and the planner with the entry's
  counter incremented or the entry deleted.\<close>

definition check_plan_cache ::
  "(real \<Rightarrow> real) \<Rightarrow> (string \<Rightarrow> string \<Rightarrow> string list \<Rightarrow> string) \<Rightarrow> planner \<Rightarrow> int \<Rightarrow> uif
     \<Rightarrow> PlanCacheEntry option \<times> planner" where
  "check_plan_cache R H P now u =
     (let key = generate_query_hash H P u
      in case plan_cache P key of
           Some entry \<Rightarrow>
             (if is_cache_entry_valid R P now entry
              then (let entry' = entry\<lparr>usage_count := usage_count entry + 1\<rparr>
                    in (Some entry', P\<lparr>plan_cache := (plan_cache P)(key \<mapsto> entry')\<rparr>))
              else (None, P\<lparr>plan_cache := (plan_cache P)(key := None)\<rparr>))
         | None \<Rightarrow> (None, P))"

text \<open>\<^verbatim>\<open>_cleanup_cache\<close>: every entry is checked at its own clock reading, and the
  invalid ones are deleted.\<close>

definition cleanup_cache ::
  "(real \<Rightarrow> real) \<Rightarrow> planner \<Rightarrow> (clock_point \<Rightarrow> int) \<Rightarrow> planner" where
  "cleanup_cache R P now =
     P\<lparr>plan_cache :=
         (\<lambda>key. case plan_cache P key of
                  None \<Rightarrow> None
                | Some entry \<Rightarrow>
                    (if is_cache_entry_valid R P (now (AtSweep key)) entry then Some entry
                     else None))\<rparr>"

text \<open>\<^verbatim>\<open>_cache_plan\<close>.\<close>

definition cache_plan ::
  "(real \<Rightarrow> real) \<Rightarrow> (string \<Rightarrow> string \<Rightarrow> string list \<Rightarrow> string) \<Rightarrow> planner
     \<Rightarrow> (clock_point \<Rightarrow> int) \<Rightarrow> uif \<Rightarrow> PlanGenerationResult \<Rightarrow> planner" where
  "cache_plan R H P now u result =
     (let key = generate_query_hash H P u;
          entry = \<lparr>cached_plan = plan result,
                   cached_confidence = confidence result,
                   created_at = now AtStore,
                   usage_count = 0,
                   query_hash = key,
                   skill_context = generate_skill_context P\<rparr>
      in cleanup_cache R (P\<lparr>plan_cache := (plan_cache P)(key \<mapsto> entry)\<rparr>) now)"

subsection \<open>Validating the model's response\<close>

text \<open>
  The loop of \<^verbatim>\<open>_validate_generated_plan\<close> over the plan's elements. The test
  \<^verbatim>\<open>skill_name not in self._registered_skills\<close> hashes the element: a list or a
  dictionary raises \<^verbatim>\<open>TypeError\<close>; any other value that is not a string differs from
  every key.
\<close>

fun check_skills :: "planner \<Rightarrow> json list \<Rightarrow> exn + bool" where
  "check_skills P [] = Inr True"
| "check_skills P (x # xs) =
     (case x of
        JStr name \<Rightarrow> (if \<not> registered P name then Inr False else check_skills P xs)
      | JArr _ \<Rightarrow> Inl (Exn TypeError (''unhashable type: '' @ quoted ''list''))
      | JObj _ \<Rightarrow> Inl (Exn TypeError (''unhashable type: '' @ quoted ''dict''))
      | _ \<Rightarrow> Inr False)"

definition validate_generated_plan :: "planner \<Rightarrow> json \<Rightarrow> exn + bool" where
  "validate_generated_plan P plan_data =
     (case plan_data of
        JObj d \<Rightarrow>
          (case map_of d ''plan'' of
             Some (JArr names) \<Rightarrow>
               (case check_skills P names of
                  Inl e \<Rightarrow> Inl e
                | Inr False \<Rightarrow> Inr False
                | Inr True \<Rightarrow>
                    (if int (length names) > max_plan_length (config P) then Inr False
                     else Inr True))
           | _ \<Rightarrow> Inr False)
      | _ \<Rightarrow> Inr False)"

text \<open>The exception classes that \<^verbatim>\<open>_parse_llm_response\<close> catches.\<close>

definition caught_by_parse :: "exn \<Rightarrow> bool" where
  "caught_by_parse e = (exn_class e \<in> {JSONDecodeError, KeyError, TypeError})"

text \<open>
  \<^verbatim>\<open>_parse_llm_response\<close>. The parameter \<open>J\<close> stands for
  \<^verbatim>\<open>json.loads\<close>: the value parsed, or the exception raised.
\<close>

definition parse_llm_response ::
  "(string \<Rightarrow> exn + json) \<Rightarrow> planner \<Rightarrow> string \<Rightarrow> exn + json option" where
  "parse_llm_response J P response0 =
     (let response = strip response0;
          start_idx = find_char response CHR ''{'';
          end_idx = rfind_char response CHR ''}'' + 1
      in case (if start_idx \<ge> 0 \<and> end_idx > start_idx
               then (case J (slice response start_idx end_idx) of
                       Inl e \<Rightarrow> Inl e
                     | Inr plan_data \<Rightarrow>
                         (case validate_generated_plan P plan_data of
                            Inl e \<Rightarrow> Inl e
                          | Inr ok \<Rightarrow> Inr (if ok then Some plan_data else None)))
               else Inr None) of
           Inl e \<Rightarrow> (if caught_by_parse e then Inr None else Inl e)
         | Inr r \<Rightarrow> Inr r)"

subsection \<open>The rule-based planner\<close>

text \<open>\<^verbatim>\<open>_get_default_fallback_plan\<close>.\<close>

definition get_default_fallback_plan :: "planner \<Rightarrow> string list" where
  "get_default_fallback_plan P =
     (let core_skills = [''MemoryRetrievalSkill'', ''ResponseGenerationSkill''];
          default_plan = filter (registered P) core_skills
      in if default_plan \<noteq> [] then default_plan else [''ResponseGenerationSkill''])"

definition conflict_indicators :: "string list" where
  "conflict_indicators = [''compare'', ''versus'', ''different'', ''conflicting'', ''sources'']"

definition multi_hop_indicators :: "string list" where
  "multi_hop_indicators =
     [''how does'', ''what is the relationship'', ''connect'', ''link'', ''relate'',
      ''why does'', ''what causes'', ''how are'', ''what connects'', ''bridge'',
      ''underlying'', ''implicit'', ''hidden connection'', ''between'']"

text \<open>
  The first stage of \<^verbatim>\<open>_generate_fallback_plan\<close>, entered when the memory-retrieval
  skill is registered: the search context is read from the bag (a new dictionary when
  absent), written to, and put back. It gives the retrieval mode and the bag.
\<close>

definition configure_retrieval ::
  "planner \<Rightarrow> string \<Rightarrow> (string \<times> json) list \<Rightarrow> exn + string \<times> (string \<times> json) list" where
  "configure_retrieval P query_lower bag =
     (let retrieval_mode = determine_retrieval_mode (graph_database P) query_lower;
          search_context = (case map_of bag ''search_context'' of Some v \<Rightarrow> v | None \<Rightarrow> JObj [])
      in case set_item search_context ''retrieval_mode'' (JStr retrieval_mode) of
           Inl e \<Rightarrow> Inl e
         | Inr sc1 \<Rightarrow>
             (case (if retrieval_mode \<in> set [''GRAPH'', ''HYBRID''] \<and> graph_database P
                    then (case set_item sc1 ''graph_depth''
                                 (JInt (determine_graph_depth query_lower)) of
                            Inl e \<Rightarrow> Inl e
                          | Inr sc2 \<Rightarrow> set_item sc2 ''max_results'' (JInt 15))
                    else Inr sc1) of
                Inl e \<Rightarrow> Inl e
              | Inr sc3 \<Rightarrow> Inr (retrieval_mode, AList.update ''search_context'' sc3 bag)))"

text \<open>The stages of \<^verbatim>\<open>_generate_fallback_plan\<close> after the first: from the plan and
  the reasoning parts so far to the final ones.\<close>

definition select_skills ::
  "planner \<Rightarrow> string \<Rightarrow> string list \<times> string list \<Rightarrow> string list \<times> string list" where
  "select_skills P query_lower start =
     (let (plan1, parts1) = start;
          (plan2, parts2) =
            (if list_ex (contains query_lower) conflict_indicators
                \<and> registered P ''ConflictDetectorSkill''
             then (plan1 @ [''ConflictDetectorSkill''],
                   parts1 @ [''Added conflict detection for comparison query''])
             else (plan1, parts1));
          (plan3, parts3) =
            (if list_ex (contains query_lower) multi_hop_indicators
                \<and> registered P ''ImplicitKnowledgeSkill''
             then (plan2 @ [''ImplicitKnowledgeSkill''],
                   parts2 @ [''Added implicit knowledge skill for multi-hop reasoning''])
             else (plan2, parts2));
          (plan4, parts4) =
            (if registered P ''ResponseGenerationSkill''
             then (plan3 @ [''ResponseGenerationSkill''],
                   parts3 @ [''Added response generation as final step''])
             else (plan3, parts3))
      in if plan4 = [] then (get_default_fallback_plan P, [''Used default fallback plan''])
         else (plan4, parts4))"

text \<open>\<^verbatim>\<open>_generate_fallback_plan\<close>: the result or the exception, and the request as the
  call leaves it.\<close>

definition generate_fallback_plan ::
  "planner \<Rightarrow> uif \<Rightarrow> (exn + PlanGenerationResult) \<times> uif" where
  "generate_fallback_plan P u =
     (let query_lower = lower (input_query u)
      in case (if registered P ''MemoryRetrievalSkill''
               then (case configure_retrieval P query_lower (intermediate_data u) of
                       Inl e \<Rightarrow> Inl e
                     | Inr (retrieval_mode, bag) \<Rightarrow>
                         Inr (([''MemoryRetrievalSkill''],
                               [''Added '' @ lower retrieval_mode
                                @ '' memory retrieval for context'']),
                              u\<lparr>intermediate_data := bag\<rparr>))
               else Inr (([], []), u)) of
           Inl e \<Rightarrow> (Inl e, u)
         | Inr (start, u1) \<Rightarrow>
             (let (plan5, parts5) = select_skills P query_lower start
              in (Inr \<lparr>plan = plan5,
                       confidence = JFloat (Finite 0.6),
                       reasoning = JStr (join ''; '' parts5),
                       cache_hit = False,
                       generation_time = 0,
                       fallback_used = True\<rparr>, u1)))"

subsection \<open>The model and curriculum strategies\<close>

text \<open>The list of names that a plan value is: validation has made sure that every element
  is a string.\<close>

definition names_of :: "json \<Rightarrow> string list" where
  "names_of p =
     (case p of
        JArr xs \<Rightarrow> concat (map (\<lambda>x. case x of JStr s \<Rightarrow> [s] | _ \<Rightarrow> []) xs)
      | _ \<Rightarrow> [])"

text \<open>
  \<^verbatim>\<open>_generate_llm_plan\<close>. The prompt is text built from the request and the
  registry; what the model answers to it is the input \<open>llm_response\<close>. The inner
  \<open>case\<close> is the \<^verbatim>\<open>try\<close> block, the outer one its handler.
\<close>

definition generate_llm_plan ::
  "(string \<Rightarrow> exn + json) \<Rightarrow> planner \<Rightarrow> env \<Rightarrow> uif \<Rightarrow> (exn + PlanGenerationResult) \<times> uif" where
  "generate_llm_plan J P w u =
     (case (case llm_response w of
              Inl e \<Rightarrow> (Inl e, u)
            | Inr response \<Rightarrow>
                (case parse_llm_response J P response of
                   Inl e \<Rightarrow> (Inl e, u)
                 | Inr None \<Rightarrow> generate_fallback_plan P u
                 | Inr (Some plan_data) \<Rightarrow>
                     (case get_item plan_data ''plan'' of
                        None \<Rightarrow> generate_fallback_plan P u
                      | Some p \<Rightarrow>
                          (if truthy plan_data \<and> truthy p
                           then (Inr \<lparr>plan = names_of p,
                                      confidence =
                                        (case get_item plan_data ''confidence'' of
                                           Some c \<Rightarrow> c | None \<Rightarrow> JFloat (Finite 0.8)),
                                      reasoning =
                                        (case get_item plan_data ''reasoning'' of
                                           Some r \<Rightarrow> r
                                         | None \<Rightarrow> JStr ''Generated by LLM planner''),
                                      cache_hit = False,
                                      generation_time = 0,
                                      fallback_used = False\<rparr>, u)
                           else generate_fallback_plan P u)))) of
        (Inl e, u1) \<Rightarrow> generate_fallback_plan P u1
      | (Inr result, u1) \<Rightarrow> (Inr result, u1))"

text \<open>\<^verbatim>\<open>_generate_curriculum_plan\<close>.\<close>

definition generate_curriculum_plan ::
  "(string \<Rightarrow> exn + json) \<Rightarrow> planner \<Rightarrow> env \<Rightarrow> uif \<Rightarrow> (exn + PlanGenerationResult) \<times> uif" where
  "generate_curriculum_plan J P w u =
     (case curriculum_result w of
        Inr reasoning_plan \<Rightarrow>
          (Inr \<lparr>plan = skills reasoning_plan,
                confidence = JFloat (confidence_threshold reasoning_plan),
                reasoning = JStr (''Curriculum '' @ level_value reasoning_plan @ '': ''
                                  @ plan_reasoning_strategy reasoning_plan),
                cache_hit = False,
                generation_time = 0,
                fallback_used = False\<rparr>,
           u\<lparr>curriculum_level := Some (level_value reasoning_plan),
             complexity_score := Some (plan_complexity_score reasoning_plan),
             reasoning_strategy := Some (plan_reasoning_strategy reasoning_plan),
             estimated_effort := Some (plan_estimated_effort reasoning_plan)\<rparr>)
      | Inl e \<Rightarrow>
          (if llm_model P then generate_llm_plan J P w u else generate_fallback_plan P u))"

subsection \<open>Creating a plan\<close>

text \<open>The new plan of \<^verbatim>\<open>create_plan\<close>, by the first strategy available.\<close>

definition generate_new_plan ::
  "(string \<Rightarrow> exn + json) \<Rightarrow> planner \<Rightarrow> env \<Rightarrow> uif \<Rightarrow> (exn + PlanGenerationResult) \<times> uif" where
  "generate_new_plan J P w u =
     (if curriculum P then generate_curriculum_plan J P w u
      else if llm_model P then generate_llm_plan J P w u
      else generate_fallback_plan P u)"

text \<open>
  The \<^verbatim>\<open>try\<close> block of \<^verbatim>\<open>create_plan\<close>: the result it returns or the exception
  that leaves it, with the planner and the request as they are at that moment.
\<close>

definition create_plan_try ::
  "(real \<Rightarrow> real) \<Rightarrow> (string \<Rightarrow> string \<Rightarrow> string list \<Rightarrow> string) \<Rightarrow> (string \<Rightarrow> exn + json)
     \<Rightarrow> planner \<Rightarrow> env \<Rightarrow> uif
     \<Rightarrow> (exn + PlanGenerationResult) \<times> planner \<times> uif" where
  "create_plan_try R H J P w u =
     (let (cached, P1) =
            (if enable_plan_caching (config P)
             then check_plan_cache R H P (datetime_now w AtLookup) u
             else (None, P))
      in case cached of
           Some cached_result \<Rightarrow>
             (Inr \<lparr>plan = cached_plan cached_result,
                   confidence = cached_confidence cached_result,
                   reasoning = JStr (''Retrieved from cache (used ''
                                     @ str_int (usage_count cached_result) @ '' times)''),
                   cache_hit = True,
                   generation_time = time_time w AtEnd - time_time w AtStart,
                   fallback_used = False\<rparr>, P1, u)
         | None \<Rightarrow>
             (case generate_new_plan J P1 w u of
                (Inl e, u1) \<Rightarrow> (Inl e, P1, u1)
              | (Inr result, u1) \<Rightarrow>
                  (case (if enable_plan_caching (config P1) \<and> plan result \<noteq> []
                         then gt_half (confidence result) else Inr False) of
                     Inl e \<Rightarrow> (Inl e, P1, u1)
                   | Inr store \<Rightarrow>
                       (let P2 = (if store then cache_plan R H P1 (datetime_now w) u1 result
                                  else P1);
                            result' = result\<lparr>generation_time :=
                                               time_time w AtEnd - time_time w AtStart\<rparr>
                        in case format_2f (confidence result') of
                             Inl e \<Rightarrow> (Inl e, P2, u1)
                           | Inr _ \<Rightarrow> (Inr result', P2, u1)))))"

text \<open>\<^verbatim>\<open>create_plan\<close>: the \<^verbatim>\<open>try\<close> block with its handler for
  \<^verbatim>\<open>Exception\<close>.\<close>

definition create_plan ::
  "(real \<Rightarrow> real) \<Rightarrow> (string \<Rightarrow> string \<Rightarrow> string list \<Rightarrow> string) \<Rightarrow> (string \<Rightarrow> exn + json)
     \<Rightarrow> planner \<Rightarrow> env \<Rightarrow> uif
     \<Rightarrow> exn + PlanGenerationResult \<times> planner \<times> uif" where
  "create_plan R H J P w u =
     (case create_plan_try R H J P w u of
        (Inr result, P1, u1) \<Rightarrow> Inr (result, P1, u1)
      | (Inl e, P1, u1) \<Rightarrow>
          Inr (\<lparr>plan = get_default_fallback_plan P1,
                confidence = JFloat (Finite 0.3),
                reasoning = JStr (''Error during generation: '' @ exn_msg e),
                cache_hit = False,
                generation_time = time_time w AtHandler - time_time w AtStart,
                fallback_used = True\<rparr>, P1, u1))"

subsection \<open>Example values\<close>

text \<open>So many seconds, in microseconds.\<close>

definition seconds :: "int \<Rightarrow> int" where
  "seconds n = n * 1000000"

text \<open>
  A stand-in for the rounding to the nearest float that agrees with it on the ages of the
  examples: whole numbers of seconds, which are floats, and \<open>2^34\<close> seconds and one
  microsecond, whose nearest float is \<open>2^34\<close> (the floats next to \<open>2^34\<close> are
  \<open>2^-18\<close> apart, more than two microseconds).
\<close>

definition example_rounding :: "real \<Rightarrow> real" where
  "example_rounding x = (if x = 17179869184 + 1 / 1000000 then 17179869184 else x)"

text \<open>A skill of a given name, a planner with caching enabled, a graph backend and no
  other collaborator, a request, and an outside world whose clocks stand still at so many
  seconds.\<close>

definition example_skill :: "string \<Rightarrow> skill" where
  "example_skill n =
     \<lparr>skill_name = n, skill_version = ''1.0'', skill_description = [],
      required_inputs = [], output_keys = [], skill_category = []\<rparr>"

definition example_planner :: planner where
  "example_planner =
     \<lparr>config = \<lparr>enable_plan_caching = True, plan_cache_ttl = 3600, max_plan_length = 10\<rparr>,
      registered_skills = [], plan_cache = Map.empty, curriculum = False,
      llm_model = False, graph_database = True\<rparr>"

definition example_request :: "string \<Rightarrow> uif" where
  "example_request q =
     \<lparr>input_query = q, active_profile = ''general'', intermediate_data = [],
      curriculum_level = None, complexity_score = None, reasoning_strategy = None,
      estimated_effort = None\<rparr>"

definition example_env :: "int \<Rightarrow> env" where
  "example_env t =
     \<lparr>datetime_now = (\<lambda>_. seconds t), time_time = (\<lambda>_. real_of_int t),
      curriculum_result = Inl (Exn RuntimeError ''no curriculum''),
      llm_response = Inl (Exn RuntimeError ''no model'')\<rparr>"

text \<open>A reply of the model whose plan is an integer of 4301 digits, one more than the
  interpreter converts from text.\<close>

definition long_integer_reply :: string where
  \<open>long_integer_reply = ''{"plan": '' @ replicate 4301 CHR ''1'' @ ''}''\<close>

text \<open>A stand-in for \<^verbatim>\<open>json.loads\<close> that agrees with it on the texts of the examples:
  on the reply with the long integer it raises \<^verbatim>\<open>ValueError\<close>, and on every other
  text \<^verbatim>\<open>JSONDecodeError\<close>, as \<^verbatim>\<open>json.loads\<close> does on the malformed texts of
  the examples. And a reply of the model around an unknown skill.\<close>

definition example_json_loads :: "string \<Rightarrow> exn + json" where
  \<open>example_json_loads s =
     (if s = ''{"plan": ["UnknownSkill"], "confidence": 0.9}''
      then Inr (JObj [(''plan'', JArr [JStr ''UnknownSkill'']),
                      (''confidence'', JFloat (Finite 0.9))])
      else if s = ''{"plan": ["ResponseGenerationSkill"], "confidence": 5}''
      then Inr (JObj [(''plan'', JArr [JStr ''ResponseGenerationSkill'']),
                      (''confidence'', JInt 5)])
      else if s = ''{"plan": ["ResponseGenerationSkill"], "confidence": "high"}''
      then Inr (JObj [(''plan'', JArr [JStr ''ResponseGenerationSkill'']),
                      (''confidence'', JStr ''high'')])
      else if s = ''{"plan": ["ResponseGenerationSkill"], "confidence": 0.85}''
      then Inr (JObj [(''plan'', JArr [JStr ''ResponseGenerationSkill'']),
                      (''confidence'', JFloat (Finite 0.85))])
      else if s = long_integer_reply
      then Inl (Exn ValueError
                 (''Exceeds the limit (4300 digits) for integer string conversion: ''
                  @ ''value has 4301 digits; use sys.set_int_max_str_digits() ''
                  @ ''to increase the limit''))
      else Inl (Exn JSONDecodeError ''Expecting value''))\<close>


text \<open>A stand-in for the hash of the query, the profile and the sorted names.\<close>

definition example_hash :: "string \<Rightarrow> string \<Rightarrow> string list \<Rightarrow> string" where
  "example_hash q p names = q @ ''|'' @ p @ ''|'' @ join '','' names"

text \<open>Two calls of \<^verbatim>\<open>create_plan\<close> on the same planner, one after the other: the two
  results.\<close>

definition create_plan_twice ::
  "(real \<Rightarrow> real) \<Rightarrow> (string \<Rightarrow> string \<Rightarrow> string list \<Rightarrow> string) \<Rightarrow> (string \<Rightarrow> exn + json)
     \<Rightarrow> planner \<Rightarrow> env \<Rightarrow> uif \<Rightarrow> env \<Rightarrow> uif
     \<Rightarrow> exn + PlanGenerationResult \<times> PlanGenerationResult" where
  "create_plan_twice R H J P w1 u1 w2 u2 =
     (case create_plan R H J P w1 u1 of
        Inl e \<Rightarrow> Inl e
      | Inr (r1, P1, u1') \<Rightarrow>
          (case create_plan R H J P1 w2 u2 of
             Inl e \<Rightarrow> Inl e
           | Inr (r2, P2, u2') \<Rightarrow> Inr (r1, r2)))"

text \<open>The planner with the response-generation skill registered, and the same planner
  holding the cache entry that a first call with the query Hello at time 0 stores.\<close>

definition response_planner :: planner where
  "response_planner =
     register_skill example_planner (example_skill ''ResponseGenerationSkill'')"

definition example_entry :: PlanCacheEntry where
  "example_entry =
     \<lparr>cached_plan = [''ResponseGenerationSkill''],
      cached_confidence = JFloat (Finite 0.6),
      created_at = 0,
      usage_count = 0,
      query_hash = ''Hello|general|ResponseGenerationSkill'',
      skill_context = ''ResponseGenerationSkill:1.0''\<rparr>"

definition cached_planner :: planner where
  "cached_planner =
     response_planner\<lparr>plan_cache := [''Hello|general|ResponseGenerationSkill'' \<mapsto> example_entry]\<rparr>"

text \<open>The same planner with a TTL of \<open>2^34\<close> seconds.\<close>

definition long_lived_planner :: planner where
  "long_lived_planner =
     cached_planner\<lparr>config := (config cached_planner)\<lparr>plan_cache_ttl := 17179869184\<rparr>\<rparr>"


text \<open>The same planner with a language model, and an outside world in which the model
  returns a given text.\<close>

definition model_planner :: planner where
  "model_planner = response_planner\<lparr>llm_model := True\<rparr>"

definition reply_env :: "int \<Rightarrow> string \<Rightarrow> env" where
  "reply_env t s = (example_env t)\<lparr>llm_response := Inr s\<rparr>"


definition good_reply :: string where
  \<open>good_reply =
     ''Plan: {"plan": ["ResponseGenerationSkill"], "confidence": 0.85}''\<close>

definition large_confidence_reply :: string where
  \<open>large_confidence_reply =
     ''{"plan": ["ResponseGenerationSkill"], "confidence": 5}''\<close>

text \<open>An outside world in which the curriculum returns a plan of one registered
  skill.\<close>

definition example_reasoning_plan :: ReasoningPlan where
  "example_reasoning_plan =
     \<lparr>skills = [''ResponseGenerationSkill''], level_value = ''foundation'',
      plan_complexity_score = 0.2, confidence_threshold = Finite 0.7,
      plan_reasoning_strategy = ''direct'', plan_estimated_effort = 1\<rparr>"

definition curriculum_env :: "int \<Rightarrow> env" where
  "curriculum_env t = (example_env t)\<lparr>curriculum_result := Inr example_reasoning_plan\<rparr>"

section \<open>Properties\<close>

subsection \<open>Strings and values\<close>

lemma startswith_prefix: "startswith s p \<longleftrightarrow> prefix p s"
  by (induction s p rule: startswith.induct) auto

text \<open>The substring test is the library's \<open>sublist\<close>.\<close>

lemma contains_sublist: "contains s sub \<longleftrightarrow> sublist sub s"
  by (induction s) (auto simp: startswith_prefix sublist_Cons_right)

lemma count_indicators_pos:
  "count_indicators q xs > 0 \<longleftrightarrow> list_ex (contains q) xs"
  by (induction xs) (auto simp: count_indicators_def)

lemma set_item_dict:
  "set_item v k x = Inr v' \<Longrightarrow> \<exists>d. v = JObj d \<and> v' = JObj (AList.update k x d)"
  by (auto simp: set_item_def split: json.splits)

lemma set_item_JObj: "set_item (JObj d) k x = Inr (JObj (AList.update k x d))"
  by (simp add: set_item_def)

lemma map_of_update_search_context:
  "map_of (AList.update ''search_context'' v bag) ''search_context'' = Some v"
  by (simp add: update_conv')

subsection \<open>The rule-based planner's first stage\<close>

text \<open>When the first stage returns, the search context was a dictionary, and the bag holds
  it with the mode and, for the two graph modes, the depth and the result count written.\<close>

lemma configure_retrieval_result:
  assumes "configure_retrieval P q bag = Inr (mode, bag')"
  shows "mode = determine_retrieval_mode (graph_database P) q
    \<and> (\<exists>d. (case map_of bag ''search_context'' of Some v \<Rightarrow> v | None \<Rightarrow> JObj []) = JObj d
         \<and> bag' = AList.update ''search_context''
               (JObj (if mode \<in> set [''GRAPH'', ''HYBRID''] \<and> graph_database P
                      then AList.update ''max_results'' (JInt 15)
                             (AList.update ''graph_depth'' (JInt (determine_graph_depth q))
                               (AList.update ''retrieval_mode'' (JStr mode) d))
                      else AList.update ''retrieval_mode'' (JStr mode) d)) bag)"
proof -
  define sc where "sc = (case map_of bag ''search_context'' of Some v \<Rightarrow> v | None \<Rightarrow> JObj [])"
  define m where "m = determine_retrieval_mode (graph_database P) q"
  have "\<exists>d. sc = JObj d"
  proof (cases "set_item sc ''retrieval_mode'' (JStr m)")
    case (Inl e)
    with assms show ?thesis
      by (simp add: configure_retrieval_def Let_def sc_def m_def)
  next
    case (Inr v)
    then show ?thesis using set_item_dict by blast
  qed
  then obtain d where d: "sc = JObj d" by blast
  show ?thesis
    using assms d
    by (auto simp: configure_retrieval_def Let_def sc_def[symmetric] m_def[symmetric]
        set_item_JObj split: if_splits)
qed

lemma generate_fallback_plan_memory:
  assumes "registered P ''MemoryRetrievalSkill''"
    and "generate_fallback_plan P u = (Inr r, u')"
  shows "\<exists>mode bag. configure_retrieval P (lower (input_query u)) (intermediate_data u)
            = Inr (mode, bag) \<and> u' = u\<lparr>intermediate_data := bag\<rparr>"
  using assms
  by (auto simp: generate_fallback_plan_def Let_def split: sum.splits prod.splits)

lemma mode_graph_needs_backend:
  "determine_retrieval_mode g q \<in> set [''GRAPH'', ''HYBRID''] \<Longrightarrow> g"
  by (auto simp: determine_retrieval_mode_def split: if_splits)

text \<open>
  Claim C7. The retrieval mode obeys the tie-break rules: without a graph backend it is
  VECTOR whatever the scores; otherwise HYBRID when the hybrid score is positive or both
  the graph and the vector score are, else GRAPH when the graph score exceeds the vector
  score, else VECTOR when the vector score is positive, else AUTO. And this is the mode
  that the rule-based planner writes into the request's search context.
\<close>

theorem retrieval_mode_tie_break:
  "determine_retrieval_mode g q =
     (if \<not> g then ''VECTOR''
      else if hybrid_score q > 0 \<or> (graph_score q > 0 \<and> vector_score q > 0) then ''HYBRID''
      else if graph_score q > vector_score q then ''GRAPH''
      else if vector_score q > 0 then ''VECTOR''
      else ''AUTO'')
   \<and> (registered P ''MemoryRetrievalSkill'' \<longrightarrow> generate_fallback_plan P u = (Inr r, u') \<longrightarrow>
        (\<exists>sc. map_of (intermediate_data u') ''search_context'' = Some (JObj sc)
            \<and> map_of sc ''retrieval_mode''
                = Some (JStr (determine_retrieval_mode (graph_database P)
                                (lower (input_query u))))))"
proof (intro conjI impI)
  show "determine_retrieval_mode g q =
     (if \<not> g then ''VECTOR''
      else if hybrid_score q > 0 \<or> (graph_score q > 0 \<and> vector_score q > 0) then ''HYBRID''
      else if graph_score q > vector_score q then ''GRAPH''
      else if vector_score q > 0 then ''VECTOR''
      else ''AUTO'')"
    by (simp add: determine_retrieval_mode_def)
next
  assume reg: "registered P ''MemoryRetrievalSkill''"
    and run: "generate_fallback_plan P u = (Inr r, u')"
  from generate_fallback_plan_memory[OF reg run] obtain mode bag where
    c: "configure_retrieval P (lower (input_query u)) (intermediate_data u) = Inr (mode, bag)"
    and u': "u' = u\<lparr>intermediate_data := bag\<rparr>" by blast
  from configure_retrieval_result[OF c] obtain d where
    m: "mode = determine_retrieval_mode (graph_database P) (lower (input_query u))"
    and bag: "bag = AList.update ''search_context''
               (JObj (if mode \<in> set [''GRAPH'', ''HYBRID''] \<and> graph_database P
                      then AList.update ''max_results'' (JInt 15)
                             (AList.update ''graph_depth''
                               (JInt (determine_graph_depth (lower (input_query u))))
                               (AList.update ''retrieval_mode'' (JStr mode) d))
                      else AList.update ''retrieval_mode'' (JStr mode) d)) (intermediate_data u)"
    by blast
  show "\<exists>sc. map_of (intermediate_data u') ''search_context'' = Some (JObj sc)
            \<and> map_of sc ''retrieval_mode''
                = Some (JStr (determine_retrieval_mode (graph_database P)
                                (lower (input_query u))))"
    unfolding u' using m
    by (subst bag) (simp add: map_of_update_search_context update_conv' del: set_simps)
qed

theorem retrieval_mode_tie_break_witness:
  "registered (register_skill example_planner (example_skill ''MemoryRetrievalSkill''))
     ''MemoryRetrievalSkill''
   \<and> generate_fallback_plan
       (register_skill example_planner (example_skill ''MemoryRetrievalSkill''))
       (example_request ''Why is it so'') =
     (Inr \<lparr>plan = [''MemoryRetrievalSkill''], confidence = JFloat (Finite 0.6),
           reasoning = JStr ''Added graph memory retrieval for context'', cache_hit = False,
           generation_time = 0, fallback_used = True\<rparr>,
      (example_request ''Why is it so'')\<lparr>intermediate_data :=
         [(''search_context'',
           JObj [(''retrieval_mode'', JStr ''GRAPH''), (''graph_depth'', JInt 2),
                 (''max_results'', JInt 15)])]\<rparr>)
   \<and> determine_retrieval_mode True ''why is it so'' = ''GRAPH''
   \<and> (\<exists>sc. map_of (intermediate_data ((example_request ''Why is it so'')\<lparr>intermediate_data :=
         [(''search_context'',
           JObj [(''retrieval_mode'', JStr ''GRAPH''), (''graph_depth'', JInt 2),
                 (''max_results'', JInt 15)])]\<rparr>)) ''search_context'' = Some (JObj sc)
         \<and> map_of sc ''retrieval_mode'' = Some (JStr ''GRAPH''))"
proof -
  let ?P = "register_skill example_planner (example_skill ''MemoryRetrievalSkill'')"
  let ?u = "example_request ''Why is it so''"
  let ?r = "\<lparr>plan = [''MemoryRetrievalSkill''], confidence = JFloat (Finite 0.6),
           reasoning = JStr ''Added graph memory retrieval for context'', cache_hit = False,
           generation_time = 0, fallback_used = True\<rparr>"
  let ?u' = "?u\<lparr>intermediate_data :=
         [(''search_context'',
           JObj [(''retrieval_mode'', JStr ''GRAPH''), (''graph_depth'', JInt 2),
                 (''max_results'', JInt 15)])]\<rparr>"
  have h1: "registered ?P ''MemoryRetrievalSkill''" by code_simp
  have h2: "generate_fallback_plan ?P ?u = (Inr ?r, ?u')" by code_simp
  have h3: "determine_retrieval_mode True ''why is it so'' = ''GRAPH''" by code_simp
  have h4: "graph_database ?P" by code_simp
  have h5: "lower (input_query ?u) = ''why is it so''" by code_simp
  from retrieval_mode_tie_break[of True "''why is it so''" ?P ?u ?r ?u'] h1 h2
  have "\<exists>sc. map_of (intermediate_data ?u') ''search_context'' = Some (JObj sc)
            \<and> map_of sc ''retrieval_mode''
                = Some (JStr (determine_retrieval_mode (graph_database ?P)
                                (lower (input_query ?u))))"
    by blast
  then show ?thesis using h1 h2 h3 h4 h5 by simp
qed

text \<open>
  Claim C8. The traversal depth is 4 when a deep indicator matches, else 3 when a multi-hop
  indicator matches, else 1 when a simple indicator matches, else 2, so it lies between 1
  and 4; and the rule-based planner writes a depth into the search context only when the
  retrieval mode is GRAPH or HYBRID: for any other mode the context's depth entry stays as
  it was.
\<close>

theorem graph_depth_classification:
  "determine_graph_depth q =
     (if list_ex (contains q) deep_indicators then 4
      else if list_ex (contains q) multi_hop_depth_indicators then 3
      else if list_ex (contains q) simple_indicators then 1
      else 2)
   \<and> 1 \<le> determine_graph_depth q \<and> determine_graph_depth q \<le> 4
   \<and> (configure_retrieval P q bag = Inr (mode, bag') \<longrightarrow>
        (\<exists>old new.
            (case map_of bag ''search_context'' of Some v \<Rightarrow> v | None \<Rightarrow> JObj []) = JObj old
          \<and> map_of bag' ''search_context'' = Some (JObj new)
          \<and> map_of new ''graph_depth'' =
               (if mode \<in> set [''GRAPH'', ''HYBRID'']
                then Some (JInt (determine_graph_depth q))
                else map_of old ''graph_depth'')))"
proof (intro conjI impI)
  show eq: "determine_graph_depth q =
     (if list_ex (contains q) deep_indicators then 4
      else if list_ex (contains q) multi_hop_depth_indicators then 3
      else if list_ex (contains q) simple_indicators then 1
      else 2)"
    by (simp add: determine_graph_depth_def Let_def count_indicators_pos)
  show "1 \<le> determine_graph_depth q" by (simp add: eq)
  show "determine_graph_depth q \<le> 4" by (simp add: eq)
next
  assume c: "configure_retrieval P q bag = Inr (mode, bag')"
  from configure_retrieval_result[OF c] obtain d where
    m: "mode = determine_retrieval_mode (graph_database P) q"
    and old: "(case map_of bag ''search_context'' of Some v \<Rightarrow> v | None \<Rightarrow> JObj []) = JObj d"
    and bag': "bag' = AList.update ''search_context''
               (JObj (if mode \<in> set [''GRAPH'', ''HYBRID''] \<and> graph_database P
                      then AList.update ''max_results'' (JInt 15)
                             (AList.update ''graph_depth'' (JInt (determine_graph_depth q))
                               (AList.update ''retrieval_mode'' (JStr mode) d))
                      else AList.update ''retrieval_mode'' (JStr mode) d)) bag"
    by blast
  have g: "mode \<in> set [''GRAPH'', ''HYBRID''] \<Longrightarrow> graph_database P"
    using m mode_graph_needs_backend by blast
  show "\<exists>old new.
            (case map_of bag ''search_context'' of Some v \<Rightarrow> v | None \<Rightarrow> JObj []) = JObj old
          \<and> map_of bag' ''search_context'' = Some (JObj new)
          \<and> map_of new ''graph_depth'' =
               (if mode \<in> set [''GRAPH'', ''HYBRID'']
                then Some (JInt (determine_graph_depth q))
                else map_of old ''graph_depth'')"
  proof (cases "mode \<in> set [''GRAPH'', ''HYBRID'']")
    case True
    with g have "graph_database P" by blast
    with True old show ?thesis
      by (subst bag') (simp add: map_of_update_search_context update_conv' del: set_simps)
  next
    case False
    with old show ?thesis
      by (subst bag') (simp add: map_of_update_search_context update_conv' del: set_simps)
  qed
qed

theorem graph_depth_classification_witness:
  "configure_retrieval
       (register_skill example_planner (example_skill ''MemoryRetrievalSkill''))
       ''the whole chain of causes and why'' [] =
     Inr (''GRAPH'',
          [(''search_context'',
            JObj [(''retrieval_mode'', JStr ''GRAPH''), (''graph_depth'', JInt 4),
                  (''max_results'', JInt 15)])])
   \<and> determine_graph_depth ''the whole chain of causes and why'' = 4
   \<and> determine_graph_depth ''the chain of causes and why'' = 3
   \<and> determine_graph_depth ''the main cause'' = 1
   \<and> determine_graph_depth ''why'' = 2"
proof -
  let ?P = "register_skill example_planner (example_skill ''MemoryRetrievalSkill'')"
  let ?bag = "[(''search_context'',
            JObj [(''retrieval_mode'', JStr ''GRAPH''), (''graph_depth'', JInt 4),
                  (''max_results'', JInt 15)])]"
  have h: "configure_retrieval ?P ''the whole chain of causes and why'' [] = Inr (''GRAPH'', ?bag)"
    by code_simp
  have d1: "list_ex (contains ''the whole chain of causes and why'') deep_indicators"
    by code_simp
  have d2: "\<not> list_ex (contains ''the chain of causes and why'') deep_indicators"
    "list_ex (contains ''the chain of causes and why'') multi_hop_depth_indicators"
    by code_simp+
  have d3: "\<not> list_ex (contains ''the main cause'') deep_indicators"
    "\<not> list_ex (contains ''the main cause'') multi_hop_depth_indicators"
    "list_ex (contains ''the main cause'') simple_indicators"
    by code_simp+
  have d4: "\<not> list_ex (contains ''why'') deep_indicators"
    "\<not> list_ex (contains ''why'') multi_hop_depth_indicators"
    "\<not> list_ex (contains ''why'') simple_indicators"
    by code_simp+
  from graph_depth_classification[of "''the whole chain of causes and why''" ?P "[]" "''GRAPH''" ?bag]
    graph_depth_classification[of "''the chain of causes and why''"]
    graph_depth_classification[of "''the main cause''"]
    graph_depth_classification[of "''why''"]
    h d1 d2 d3 d4
  show ?thesis by simp
qed

subsection \<open>The default plan\<close>

lemma get_default_fallback_plan_cases:
  "get_default_fallback_plan P =
     (if registered P ''MemoryRetrievalSkill''
      then (if registered P ''ResponseGenerationSkill''
            then [''MemoryRetrievalSkill'', ''ResponseGenerationSkill'']
            else [''MemoryRetrievalSkill''])
      else [''ResponseGenerationSkill''])"
  by (simp add: get_default_fallback_plan_def)

lemma get_default_fallback_plan_nonempty: "get_default_fallback_plan P \<noteq> []"
  by (simp add: get_default_fallback_plan_cases)

lemma select_skills_nonempty: "select_skills P q start = (p, parts) \<Longrightarrow> p \<noteq> []"
  by (auto simp: select_skills_def Let_def get_default_fallback_plan_nonempty
      split: prod.splits if_splits)

lemma generate_fallback_plan_nonempty:
  "generate_fallback_plan P u = (Inr r, u') \<Longrightarrow> plan r \<noteq> []"
  by (auto simp: generate_fallback_plan_def Let_def split: sum.splits prod.splits if_splits
      dest: select_skills_nonempty)

text \<open>
  Claim C9, as the code has it. The default plan is the registered ones of the
  memory-retrieval and the response-generation skill, in this order, and the
  response-generation skill alone when neither is registered: it is never empty. The
  rule-based planner selects no skill in its stages exactly when neither of the two is
  registered and neither conditional skill is added, and its plan is then the
  response-generation skill alone. No plan of the rule-based planner is empty.
\<close>

theorem default_plan_never_empty:
  "get_default_fallback_plan P =
     (if registered P ''MemoryRetrievalSkill''
      then (if registered P ''ResponseGenerationSkill''
            then [''MemoryRetrievalSkill'', ''ResponseGenerationSkill'']
            else [''MemoryRetrievalSkill''])
      else [''ResponseGenerationSkill''])
   \<and> (\<not> registered P ''MemoryRetrievalSkill'' \<longrightarrow> \<not> registered P ''ResponseGenerationSkill'' \<longrightarrow>
       \<not> (list_ex (contains (lower (input_query u))) conflict_indicators
            \<and> registered P ''ConflictDetectorSkill'') \<longrightarrow>
       \<not> (list_ex (contains (lower (input_query u))) multi_hop_indicators
            \<and> registered P ''ImplicitKnowledgeSkill'') \<longrightarrow>
       generate_fallback_plan P u =
         (Inr \<lparr>plan = [''ResponseGenerationSkill''], confidence = JFloat (Finite 0.6),
               reasoning = JStr ''Used default fallback plan'', cache_hit = False,
               generation_time = 0, fallback_used = True\<rparr>, u))
   \<and> (\<forall>r u'. generate_fallback_plan P u = (Inr r, u') \<longrightarrow> plan r \<noteq> [])"
proof (intro conjI impI allI)
  show "get_default_fallback_plan P =
     (if registered P ''MemoryRetrievalSkill''
      then (if registered P ''ResponseGenerationSkill''
            then [''MemoryRetrievalSkill'', ''ResponseGenerationSkill'']
            else [''MemoryRetrievalSkill''])
      else [''ResponseGenerationSkill''])"
    by (rule get_default_fallback_plan_cases)
next
  assume "\<not> registered P ''MemoryRetrievalSkill''" "\<not> registered P ''ResponseGenerationSkill''"
    "\<not> (list_ex (contains (lower (input_query u))) conflict_indicators
            \<and> registered P ''ConflictDetectorSkill'')"
    "\<not> (list_ex (contains (lower (input_query u))) multi_hop_indicators
            \<and> registered P ''ImplicitKnowledgeSkill'')"
  then show "generate_fallback_plan P u =
         (Inr \<lparr>plan = [''ResponseGenerationSkill''], confidence = JFloat (Finite 0.6),
               reasoning = JStr ''Used default fallback plan'', cache_hit = False,
               generation_time = 0, fallback_used = True\<rparr>, u)"
    by (auto simp: generate_fallback_plan_def select_skills_def Let_def
        get_default_fallback_plan_cases)
next
  fix r u'
  assume "generate_fallback_plan P u = (Inr r, u')"
  then show "plan r \<noteq> []" by (rule generate_fallback_plan_nonempty)
qed

theorem default_plan_never_empty_witness:
  "\<not> registered example_planner ''MemoryRetrievalSkill''
   \<and> \<not> registered example_planner ''ResponseGenerationSkill''
   \<and> \<not> (list_ex (contains (lower (input_query (example_request ''Hello'')))) conflict_indicators
            \<and> registered example_planner ''ConflictDetectorSkill'')
   \<and> \<not> (list_ex (contains (lower (input_query (example_request ''Hello'')))) multi_hop_indicators
            \<and> registered example_planner ''ImplicitKnowledgeSkill'')
   \<and> generate_fallback_plan example_planner (example_request ''Hello'') =
         (Inr \<lparr>plan = [''ResponseGenerationSkill''], confidence = JFloat (Finite 0.6),
               reasoning = JStr ''Used default fallback plan'', cache_hit = False,
               generation_time = 0, fallback_used = True\<rparr>, example_request ''Hello'')
   \<and> plan \<lparr>plan = [''ResponseGenerationSkill''], confidence = JFloat (Finite 0.6),
               reasoning = JStr ''Used default fallback plan'', cache_hit = False,
               generation_time = 0, fallback_used = True\<rparr> \<noteq> []"
proof -
  have h1: "\<not> registered example_planner ''MemoryRetrievalSkill''" by code_simp
  have h2: "\<not> registered example_planner ''ResponseGenerationSkill''" by code_simp
  have h3: "\<not> (list_ex (contains (lower (input_query (example_request ''Hello'')))) conflict_indicators
            \<and> registered example_planner ''ConflictDetectorSkill'')" by code_simp
  have h4: "\<not> (list_ex (contains (lower (input_query (example_request ''Hello'')))) multi_hop_indicators
            \<and> registered example_planner ''ImplicitKnowledgeSkill'')" by code_simp
  from default_plan_never_empty[of example_planner "example_request ''Hello''"] h1 h2 h3 h4
  show ?thesis by simp
qed

text \<open>The claim as stated fails: with neither skill registered the default plan is not
  empty, and so is the rule-based planner's plan.\<close>

theorem default_plan_empty_counterexample:
  "\<not> registered example_planner ''MemoryRetrievalSkill''
   \<and> \<not> registered example_planner ''ResponseGenerationSkill''
   \<and> get_default_fallback_plan example_planner = [''ResponseGenerationSkill'']
   \<and> get_default_fallback_plan example_planner \<noteq> []
   \<and> fst (generate_fallback_plan example_planner (example_request ''Hello'')) =
        Inr \<lparr>plan = [''ResponseGenerationSkill''], confidence = JFloat (Finite 0.6),
             reasoning = JStr ''Used default fallback plan'', cache_hit = False,
             generation_time = 0, fallback_used = True\<rparr>"
  by code_simp

subsection \<open>The validator\<close>

lemma check_skills_True_iff:
  "check_skills P xs = Inr True \<longleftrightarrow> (\<forall>x\<in>set xs. \<exists>n. x = JStr n \<and> registered P n)"
  by (induction xs) (auto split: json.splits)

lemma check_skills_error: "check_skills P xs = Inl e \<Longrightarrow> exn_class e = TypeError"
  by (induction xs) (auto split: json.splits if_splits)

lemma validate_generated_plan_error:
  "validate_generated_plan P v = Inl e \<Longrightarrow> exn_class e = TypeError"
  by (auto simp: validate_generated_plan_def
      split: json.splits option.splits sum.splits bool.splits if_splits
      dest: check_skills_error)

lemma validate_generated_plan_True_iff:
  "validate_generated_plan P v = Inr True \<longleftrightarrow>
     (\<exists>d xs. v = JObj d \<and> map_of d ''plan'' = Some (JArr xs)
        \<and> (\<forall>x\<in>set xs. \<exists>n. x = JStr n \<and> registered P n)
        \<and> int (length xs) \<le> max_plan_length (config P))"
  by (auto simp: validate_generated_plan_def check_skills_True_iff[symmetric]
      split: json.splits option.splits sum.splits bool.splits if_splits)


lemma parse_llm_response_unfold:
  "parse_llm_response J P s =
     (if find_char (strip s) CHR ''{'' \<ge> 0
         \<and> rfind_char (strip s) CHR ''}'' + 1 > find_char (strip s) CHR ''{''
      then (case J (slice (strip s) (find_char (strip s) CHR ''{'')
                      (rfind_char (strip s) CHR ''}'' + 1)) of
              Inl e \<Rightarrow> (if caught_by_parse e then Inr None else Inl e)
            | Inr v \<Rightarrow>
                (case validate_generated_plan P v of
                   Inl e \<Rightarrow> Inr None
                 | Inr ok \<Rightarrow> Inr (if ok then Some v else None)))
      else Inr None)"
  by (auto simp: parse_llm_response_def Let_def caught_by_parse_def
      split: sum.splits dest: validate_generated_plan_error)





subsection \<open>The cache lookup\<close>

lemma is_cache_entry_valid_iff:
  "is_cache_entry_valid R P now e \<longleftrightarrow>
     total_seconds R (now - created_at e) \<le> plan_cache_ttl (config P)
     \<and> skill_context e = generate_skill_context P"
  by (auto simp: is_cache_entry_valid_def Let_def)

lemma check_plan_cache_cases:
  "check_plan_cache R H P now u =
     (case plan_cache P (generate_query_hash H P u) of
        None \<Rightarrow> (None, P)
      | Some e \<Rightarrow>
          (if is_cache_entry_valid R P now e
           then (Some (e\<lparr>usage_count := usage_count e + 1\<rparr>),
                 P\<lparr>plan_cache := (plan_cache P)
                      (generate_query_hash H P u \<mapsto> e\<lparr>usage_count := usage_count e + 1\<rparr>)\<rparr>)
           else (None, P\<lparr>plan_cache := (plan_cache P)(generate_query_hash H P u := None)\<rparr>)))"
  by (simp add: check_plan_cache_def Let_def split: option.splits)

lemma create_plan_hit:
  assumes "enable_plan_caching (config P)"
    and "check_plan_cache R H P (datetime_now w AtLookup) u = (Some e, P1)"
  shows "create_plan R H J P w u =
     Inr (\<lparr>plan = cached_plan e, confidence = cached_confidence e,
           reasoning = JStr (''Retrieved from cache (used '' @ str_int (usage_count e)
                             @ '' times)''),
           cache_hit = True,
           generation_time = time_time w AtEnd - time_time w AtStart,
           fallback_used = False\<rparr>, P1, u)"
  using assms by (simp add: create_plan_def create_plan_try_def)

subsection \<open>What a call leaves unchanged\<close>

lemma check_plan_cache_frame:
  "check_plan_cache R H P now u = (res, P') \<Longrightarrow>
     registered_skills P' = registered_skills P \<and> config P' = config P
     \<and> curriculum P' = curriculum P \<and> llm_model P' = llm_model P
     \<and> graph_database P' = graph_database P"
  by (auto simp: check_plan_cache_def Let_def split: option.splits if_splits)

lemma cache_plan_frame:
  "registered_skills (cache_plan R H P now u r) = registered_skills P
   \<and> config (cache_plan R H P now u r) = config P
   \<and> curriculum (cache_plan R H P now u r) = curriculum P
   \<and> llm_model (cache_plan R H P now u r) = llm_model P
   \<and> graph_database (cache_plan R H P now u r) = graph_database P"
  by (simp add: cache_plan_def cleanup_cache_def Let_def)

lemma create_plan_try_frame:
  assumes "create_plan_try R H J P w u = (x, P', u')"
  shows "registered_skills P' = registered_skills P \<and> config P' = config P
     \<and> curriculum P' = curriculum P \<and> llm_model P' = llm_model P
     \<and> graph_database P' = graph_database P"
proof -
  obtain c P1 where c: "(if enable_plan_caching (config P)
             then check_plan_cache R H P (datetime_now w AtLookup) u
             else (None, P)) = (c, P1)" by (cases "(if enable_plan_caching (config P)
             then check_plan_cache R H P (datetime_now w AtLookup) u
             else (None, P))") 
  then have f: "registered_skills P1 = registered_skills P \<and> config P1 = config P
     \<and> curriculum P1 = curriculum P \<and> llm_model P1 = llm_model P
     \<and> graph_database P1 = graph_database P"
    using check_plan_cache_frame by (auto split: if_splits)
  from assms c have "P' = P1 \<or> (\<exists>r u1. P' = cache_plan R H P1 (datetime_now w) u1 r)"
    by (auto simp: create_plan_try_def Let_def split: option.splits sum.splits prod.splits if_splits)
  with f show ?thesis using cache_plan_frame by metis
qed

lemma get_default_fallback_plan_cong:
  "registered_skills P' = registered_skills P \<Longrightarrow>
     get_default_fallback_plan P' = get_default_fallback_plan P"
  by (simp add: get_default_fallback_plan_def registered_def)


subsection \<open>Exceptions\<close>

lemma create_plan_unfold:
  "create_plan R H J P w u =
     (case create_plan_try R H J P w u of
        (Inr result, P1, u1) \<Rightarrow> Inr (result, P1, u1)
      | (Inl e, P1, u1) \<Rightarrow>
          Inr (\<lparr>plan = get_default_fallback_plan P,
                confidence = JFloat (Finite 0.3),
                reasoning = JStr (''Error during generation: '' @ exn_msg e),
                cache_hit = False,
                generation_time = time_time w AtHandler - time_time w AtStart,
                fallback_used = True\<rparr>, P1, u1))"
proof -
  obtain x P1 u1 where t: "create_plan_try R H J P w u = (x, P1, u1)"
    using prod_cases3 by blast
  from create_plan_try_frame[OF t]
  have d: "get_default_fallback_plan P1 = get_default_fallback_plan P"
    by (intro get_default_fallback_plan_cong) simp
  show ?thesis
  proof (cases x)
    case (Inl e)
    then show ?thesis unfolding create_plan_def t by (simp only: prod.case sum.case d)
  next
    case (Inr r)
    then show ?thesis unfolding create_plan_def t by (simp only: prod.case sum.case)
  qed
qed





subsection \<open>The cache plays no part in generation\<close>

lemma registered_cache [simp]: "registered (P\<lparr>plan_cache := c\<rparr>) = registered P"
  by (simp add: registered_def fun_eq_iff)

lemma get_default_fallback_plan_cache [simp]:
  "get_default_fallback_plan (P\<lparr>plan_cache := c\<rparr>) = get_default_fallback_plan P"
  by (simp add: get_default_fallback_plan_def)

lemma select_skills_cache [simp]:
  "select_skills (P\<lparr>plan_cache := c\<rparr>) = select_skills P"
  by (simp add: select_skills_def fun_eq_iff Let_def cong: sum.case_cong option.case_cong json.case_cong prod.case_cong if_cong bool.case_cong)

lemma configure_retrieval_cache [simp]:
  "configure_retrieval (P\<lparr>plan_cache := c\<rparr>) = configure_retrieval P"
  by (simp add: configure_retrieval_def fun_eq_iff Let_def cong: sum.case_cong option.case_cong json.case_cong prod.case_cong if_cong bool.case_cong)

lemma generate_fallback_plan_cache [simp]:
  "generate_fallback_plan (P\<lparr>plan_cache := c\<rparr>) = generate_fallback_plan P"
  by (simp add: generate_fallback_plan_def fun_eq_iff Let_def cong: sum.case_cong option.case_cong json.case_cong prod.case_cong if_cong bool.case_cong)

lemma check_skills_cache [simp]:
  "check_skills (P\<lparr>plan_cache := c\<rparr>) xs = check_skills P xs"
  by (induction xs) (auto split: json.splits)

lemma validate_generated_plan_cache [simp]:
  "validate_generated_plan (P\<lparr>plan_cache := c\<rparr>) = validate_generated_plan P"
  by (simp add: validate_generated_plan_def fun_eq_iff Let_def cong: sum.case_cong option.case_cong json.case_cong prod.case_cong if_cong bool.case_cong)

lemma parse_llm_response_cache [simp]:
  "parse_llm_response J (P\<lparr>plan_cache := c\<rparr>) = parse_llm_response J P"
  by (simp add: parse_llm_response_def fun_eq_iff Let_def cong: sum.case_cong option.case_cong json.case_cong prod.case_cong if_cong bool.case_cong)

lemma generate_llm_plan_cache [simp]:
  "generate_llm_plan J (P\<lparr>plan_cache := c\<rparr>) = generate_llm_plan J P"
  by (simp add: generate_llm_plan_def fun_eq_iff Let_def cong: sum.case_cong option.case_cong json.case_cong prod.case_cong if_cong bool.case_cong)

lemma generate_curriculum_plan_cache [simp]:
  "generate_curriculum_plan J (P\<lparr>plan_cache := c\<rparr>) = generate_curriculum_plan J P"
  by (simp add: generate_curriculum_plan_def fun_eq_iff Let_def cong: sum.case_cong option.case_cong json.case_cong prod.case_cong if_cong bool.case_cong)

lemma generate_new_plan_cache [simp]:
  "generate_new_plan J (P\<lparr>plan_cache := c\<rparr>) = generate_new_plan J P"
  by (simp add: generate_new_plan_def fun_eq_iff Let_def cong: sum.case_cong option.case_cong json.case_cong prod.case_cong if_cong bool.case_cong)

lemma check_plan_cache_shape:
  "check_plan_cache R H P now u = (res, P') \<Longrightarrow> \<exists>c. P' = P\<lparr>plan_cache := c\<rparr>"
  by (auto simp: check_plan_cache_cases split: option.splits if_splits)
     (metis planner.surjective planner.update_convs(3))


subsection \<open>The paths through a call\<close>

lemma lookup_shape:
  assumes "(if enable_plan_caching (config P)
            then check_plan_cache R H P now u else (None, P)) = (res, P1)"
  shows "\<exists>c. P1 = P\<lparr>plan_cache := c\<rparr>"
proof (cases "enable_plan_caching (config P)")
  case True
  with assms show ?thesis using check_plan_cache_shape by simp
next
  case False
  with assms have "P1 = P\<lparr>plan_cache := plan_cache P\<rparr>" by simp
  then show ?thesis by blast
qed

text \<open>The planner after the block: as the lookup left it, or with the new result
  stored.\<close>

lemma create_plan_try_planner:
  assumes "create_plan_try R H J P w u = (x, P', u')"
  shows "\<exists>res P1.
     (if enable_plan_caching (config P)
      then check_plan_cache R H P (datetime_now w AtLookup) u else (None, P)) = (res, P1)
     \<and> (P' = P1
        \<or> (\<exists>r0. res = None \<and> generate_new_plan J P w u = (Inr r0, u')
              \<and> enable_plan_caching (config P) \<and> plan r0 \<noteq> []
              \<and> gt_half (confidence r0) = Inr True
              \<and> P' = cache_plan R H P1 (datetime_now w) u' r0))"
proof -
  obtain res P1 where c: "(if enable_plan_caching (config P)
      then check_plan_cache R H P (datetime_now w AtLookup) u else (None, P)) = (res, P1)"
    by fastforce
  from lookup_shape[OF c] obtain c' where P1: "P1 = P\<lparr>plan_cache := c'\<rparr>" by blast
  obtain g u1 where g: "generate_new_plan J P w u = (g, u1)" by fastforce
  have "P' = P1
        \<or> (\<exists>r0. res = None \<and> generate_new_plan J P w u = (Inr r0, u')
              \<and> enable_plan_caching (config P) \<and> plan r0 \<noteq> []
              \<and> gt_half (confidence r0) = Inr True
              \<and> P' = cache_plan R H P1 (datetime_now w) u' r0)"
    using assms unfolding create_plan_try_def c
    by (auto simp: P1 g Let_def split: option.splits sum.splits if_splits)
  with c show ?thesis by blast
qed

text \<open>The result of the block: the cached entry's, or the generated one.\<close>

lemma create_plan_try_result:
  assumes "create_plan_try R H J P w u = (Inr r, P', u')"
  shows "(\<exists>e P1. enable_plan_caching (config P)
            \<and> check_plan_cache R H P (datetime_now w AtLookup) u = (Some e, P1)
            \<and> plan r = cached_plan e \<and> confidence r = cached_confidence e
            \<and> cache_hit r \<and> \<not> fallback_used r \<and> P' = P1 \<and> u' = u)
       \<or> (\<exists>r0. generate_new_plan J P w u = (Inr r0, u')
            \<and> r = r0\<lparr>generation_time := time_time w AtEnd - time_time w AtStart\<rparr>
            \<and> format_2f (confidence r0) = Inr ())"
proof -
  obtain res P1 where c: "(if enable_plan_caching (config P)
      then check_plan_cache R H P (datetime_now w AtLookup) u else (None, P)) = (res, P1)"
    by fastforce
  from lookup_shape[OF c] obtain c' where P1: "P1 = P\<lparr>plan_cache := c'\<rparr>" by blast
  obtain g u1 where g: "generate_new_plan J P w u = (g, u1)" by fastforce
  show ?thesis
  proof (cases res)
    case None
    with assms have "\<exists>r0. generate_new_plan J P w u = (Inr r0, u')
            \<and> r = r0\<lparr>generation_time := time_time w AtEnd - time_time w AtStart\<rparr>
            \<and> format_2f (confidence r0) = Inr ()"
      unfolding create_plan_try_def c
      by (auto simp: P1 g Let_def split: sum.splits if_splits)
    then show ?thesis by blast
  next
    case (Some e)
    with c have on: "enable_plan_caching (config P)"
      and ch: "check_plan_cache R H P (datetime_now w AtLookup) u = (Some e, P1)"
      by (auto split: if_splits)
    from assms Some have "plan r = cached_plan e \<and> confidence r = cached_confidence e
            \<and> cache_hit r \<and> \<not> fallback_used r \<and> P' = P1 \<and> u' = u"
      unfolding create_plan_try_def c by auto
    with on ch show ?thesis by blast
  qed
qed


subsection \<open>What the cache holds\<close>

lemma check_plan_cache_entries:
  assumes "check_plan_cache R H P now u = (res, P')" and "plan_cache P' k = Some e"
  shows "\<exists>e0. plan_cache P k = Some e0 \<and> cached_plan e = cached_plan e0
            \<and> cached_confidence e = cached_confidence e0"
  using assms
  by (auto simp: check_plan_cache_cases split: option.splits if_splits)

lemma check_plan_cache_returned:
  assumes "check_plan_cache R H P now u = (Some e, P')"
  shows "\<exists>k e0. plan_cache P k = Some e0 \<and> cached_plan e = cached_plan e0
            \<and> cached_confidence e = cached_confidence e0"
  using assms
  by (fastforce simp: check_plan_cache_cases split: option.splits if_splits)

lemma cache_plan_entries:
  assumes "plan_cache (cache_plan R H P now u r) k = Some e"
  shows "plan_cache P k = Some e
       \<or> (cached_plan e = plan r \<and> cached_confidence e = confidence r)"
  using assms
  by (auto simp: cache_plan_def cleanup_cache_def Let_def split: option.splits if_splits)

text \<open>
  A property of plans and confidences that holds of every cache entry, of what the
  strategies generate and of the error fallback holds of what \<^verbatim>\<open>create_plan\<close> returns
  and of every entry of the cache afterwards.
\<close>

lemma create_plan_invariant:
  assumes cache: "\<And>k e. plan_cache P k = Some e \<Longrightarrow> Q (cached_plan e) (cached_confidence e)"
    and gen: "\<And>r0 u1. generate_new_plan J P w u = (Inr r0, u1) \<Longrightarrow> Q (plan r0) (confidence r0)"
    and err: "Q (get_default_fallback_plan P) (JFloat (Finite 0.3))"
    and run: "create_plan R H J P w u = Inr (r, P', u')"
  shows "Q (plan r) (confidence r)
     \<and> (\<forall>k e. plan_cache P' k = Some e \<longrightarrow> Q (cached_plan e) (cached_confidence e))"
proof -
  obtain x P1 u1 where t: "create_plan_try R H J P w u = (x, P1, u1)"
    using prod_cases3 by blast
  have P': "P' = P1" and u': "u' = u1"
    using run unfolding create_plan_unfold t by (auto split: sum.splits)
  from create_plan_try_planner[OF t] obtain res P0 where
    l: "(if enable_plan_caching (config P)
         then check_plan_cache R H P (datetime_now w AtLookup) u else (None, P)) = (res, P0)"
    and s: "P1 = P0 \<or> (\<exists>r0. generate_new_plan J P w u = (Inr r0, u1)
              \<and> P1 = cache_plan R H P0 (datetime_now w) u1 r0)"
    by blast
  have c0: "Q (cached_plan e) (cached_confidence e)" if "plan_cache P0 k = Some e" for k e
  proof (cases "enable_plan_caching (config P)")
    case True
    with l have "check_plan_cache R H P (datetime_now w AtLookup) u = (res, P0)" by simp
    from check_plan_cache_entries[OF this that] cache show ?thesis by auto
  next
    case False
    with l that cache show ?thesis by auto
  qed
  have c1: "Q (cached_plan e) (cached_confidence e)" if "plan_cache P1 k = Some e" for k e
    using s
  proof
    assume "P1 = P0"
    with that c0 show ?thesis by blast
  next
    assume "\<exists>r0. generate_new_plan J P w u = (Inr r0, u1)
              \<and> P1 = cache_plan R H P0 (datetime_now w) u1 r0"
    then obtain r0 where g: "generate_new_plan J P w u = (Inr r0, u1)"
      and p: "P1 = cache_plan R H P0 (datetime_now w) u1 r0" by blast
    from that p cache_plan_entries[of R H P0 "datetime_now w" u1 r0 k e]
    have "plan_cache P0 k = Some e
       \<or> (cached_plan e = plan r0 \<and> cached_confidence e = confidence r0)" by simp
    with c0 gen[OF g] show ?thesis by auto
  qed
  have res: "Q (plan r) (confidence r)"
  proof (cases x)
    case (Inl e)
    with run err show ?thesis unfolding create_plan_unfold t by auto
  next
    case (Inr r1)
    with run have r: "r1 = r" unfolding create_plan_unfold t by auto
    from create_plan_try_result[OF t[unfolded Inr r]]
    show ?thesis
    proof
      assume "\<exists>e P1a. enable_plan_caching (config P)
            \<and> check_plan_cache R H P (datetime_now w AtLookup) u = (Some e, P1a)
            \<and> plan r = cached_plan e \<and> confidence r = cached_confidence e
            \<and> cache_hit r \<and> \<not> fallback_used r \<and> P1 = P1a \<and> u1 = u"
      then obtain e P1a where
        "check_plan_cache R H P (datetime_now w AtLookup) u = (Some e, P1a)"
        "plan r = cached_plan e" "confidence r = cached_confidence e" by blast
      with check_plan_cache_returned[of R H P "datetime_now w AtLookup" u e P1a] cache
      show ?thesis by auto
    next
      assume "\<exists>r0. generate_new_plan J P w u = (Inr r0, u1)
            \<and> r = r0\<lparr>generation_time := time_time w AtEnd - time_time w AtStart\<rparr>
            \<and> format_2f (confidence r0) = Inr ()"
      then obtain r0 where "generate_new_plan J P w u = (Inr r0, u1)"
        "r = r0\<lparr>generation_time := time_time w AtEnd - time_time w AtStart\<rparr>" by blast
      with gen show ?thesis by auto
    qed
  qed
  from res c1 P' show ?thesis by blast
qed

subsection \<open>What the strategies generate\<close>

lemma generate_fallback_plan_fields:
  "generate_fallback_plan P u = (Inr r, u') \<Longrightarrow>
     confidence r = JFloat (Finite 0.6) \<and> fallback_used r \<and> \<not> cache_hit r"
  by (auto simp: generate_fallback_plan_def Let_def split: sum.splits prod.splits if_splits)

lemma generate_llm_plan_cases:
  assumes "generate_llm_plan J P w u = (Inr r, u')"
  shows "generate_fallback_plan P u = (Inr r, u')
     \<or> (\<exists>s pd p. llm_response w = Inr s \<and> parse_llm_response J P s = Inr (Some pd)
           \<and> get_item pd ''plan'' = Some p \<and> truthy p \<and> u' = u
           \<and> plan r = names_of p
           \<and> confidence r = (case get_item pd ''confidence'' of
                                Some c \<Rightarrow> c | None \<Rightarrow> JFloat (Finite 0.8))
           \<and> \<not> fallback_used r \<and> \<not> cache_hit r)"
proof (cases "llm_response w")
  case (Inl e)
  with assms show ?thesis by (simp add: generate_llm_plan_def)
next
  case (Inr s)
  note s = this
  show ?thesis
  proof (cases "parse_llm_response J P s")
    case (Inl e)
    with assms s show ?thesis by (simp add: generate_llm_plan_def)
  next
    case (Inr pdo)
    note pdo = this
    have fb: "(case generate_fallback_plan P u of
                 (Inl e, u1) \<Rightarrow> generate_fallback_plan P u1
               | (Inr result, u1) \<Rightarrow> (Inr result, u1)) = (Inr r, u') \<Longrightarrow>
              generate_fallback_plan P u = (Inr r, u')"
      by (auto simp: generate_fallback_plan_def Let_def split: sum.splits prod.splits if_splits)
    show ?thesis
    proof (cases pdo)
      case None
      with assms s pdo fb show ?thesis by (simp add: generate_llm_plan_def)
    next
      case (Some pd)
      note pd = this
      show ?thesis
      proof (cases "get_item pd ''plan''")
        case None
        with assms s pdo pd fb show ?thesis by (simp add: generate_llm_plan_def)
      next
        case (Some p)
        show ?thesis
        proof (cases "truthy pd \<and> truthy p")
          case True
          with assms s pdo pd Some have "u' = u \<and> plan r = names_of p
           \<and> confidence r = (case get_item pd ''confidence'' of
                                Some c \<Rightarrow> c | None \<Rightarrow> JFloat (Finite 0.8))
           \<and> \<not> fallback_used r \<and> \<not> cache_hit r"
            by (auto simp: generate_llm_plan_def)
          with s pdo pd Some True show ?thesis by blast
        next
          case False
          with assms s pdo pd Some fb show ?thesis by (simp add: generate_llm_plan_def)
        qed
      qed
    qed
  qed
qed

lemma generate_new_plan_cases:
  assumes "generate_new_plan J P w u = (Inr r, u')"
  shows "(\<exists>rp. curriculum P \<and> curriculum_result w = Inr rp \<and> plan r = skills rp
            \<and> confidence r = JFloat (confidence_threshold rp)
            \<and> \<not> fallback_used r \<and> \<not> cache_hit r)
     \<or> (\<exists>s pd p. llm_model P \<and> llm_response w = Inr s
           \<and> parse_llm_response J P s = Inr (Some pd)
           \<and> get_item pd ''plan'' = Some p \<and> truthy p \<and> u' = u
           \<and> plan r = names_of p
           \<and> confidence r = (case get_item pd ''confidence'' of
                                Some c \<Rightarrow> c | None \<Rightarrow> JFloat (Finite 0.8))
           \<and> \<not> fallback_used r \<and> \<not> cache_hit r)
     \<or> generate_fallback_plan P u = (Inr r, u')"
proof -
  have llm: ?thesis if "llm_model P" "generate_llm_plan J P w u = (Inr r, u')"
    using generate_llm_plan_cases[OF that(2)] that(1) by blast
  show ?thesis
  proof (cases "curriculum P")
    case True
    show ?thesis
    proof (cases "curriculum_result w")
      case (Inl e)
      with assms True llm show ?thesis
        by (auto simp: generate_new_plan_def generate_curriculum_plan_def split: if_splits)
    next
      case (Inr rp)
      with assms True have "plan r = skills rp
            \<and> confidence r = JFloat (confidence_threshold rp)
            \<and> \<not> fallback_used r \<and> \<not> cache_hit r"
        by (auto simp: generate_new_plan_def generate_curriculum_plan_def)
      with True Inr show ?thesis by blast
    qed
  next
    case False
    with assms llm show ?thesis
      by (auto simp: generate_new_plan_def split: if_splits)
  qed
qed

subsection \<open>Confidence\<close>

text \<open>
  Claim C5, as the code has it. The confidence of a result is passed through unchecked: it
  lies between 0 and 1 whenever the confidences in the cache do, the curriculum's
  confidence threshold does, and the confidence field of a reply of the model that the
  validator accepts does (the rule-based planner's 0.6, the error fallback's 0.3 and the
  0.8 of a reply without the field always do); the cache then holds such confidences only.
\<close>

theorem confidence_in_unit_interval:
  assumes cache: "\<forall>k e. plan_cache P k = Some e \<longrightarrow> in_unit_interval (cached_confidence e)"
    and cur: "\<forall>rp. curriculum_result w = Inr rp \<longrightarrow>
                in_unit_interval (JFloat (confidence_threshold rp))"
    and llm: "\<forall>s pd c. llm_response w = Inr s \<longrightarrow> parse_llm_response J P s = Inr (Some pd) \<longrightarrow>
                get_item pd ''confidence'' = Some c \<longrightarrow> in_unit_interval c"
    and run: "create_plan R H J P w u = Inr (r, P', u')"
  shows "in_unit_interval (confidence r)
     \<and> (\<forall>k e. plan_cache P' k = Some e \<longrightarrow> in_unit_interval (cached_confidence e))"
proof (rule create_plan_invariant[where Q = "\<lambda>p c. in_unit_interval c", OF _ _ _ run])
  fix k e assume "plan_cache P k = Some e"
  with cache show "in_unit_interval (cached_confidence e)" by blast
next
  fix r0 u1 assume "generate_new_plan J P w u = (Inr r0, u1)"
  from generate_new_plan_cases[OF this] consider
    (c) rp where "curriculum_result w = Inr rp" "confidence r0 = JFloat (confidence_threshold rp)"
  | (m) s pd where "llm_response w = Inr s" "parse_llm_response J P s = Inr (Some pd)"
      "confidence r0 = (case get_item pd ''confidence'' of
                                Some c \<Rightarrow> c | None \<Rightarrow> JFloat (Finite 0.8))"
  | (f) "generate_fallback_plan P u = (Inr r0, u1)"
    by blast
  then show "in_unit_interval (confidence r0)"
  proof cases
    case c
    with cur show ?thesis by simp
  next
    case m
    show ?thesis
    proof (cases "get_item pd ''confidence''")
      case None
      with m show ?thesis by (simp add: in_unit_interval_def)
    next
      case (Some c)
      with m llm show ?thesis by simp
    qed
  next
    case f
    from generate_fallback_plan_fields[OF f] show ?thesis
      by (simp add: in_unit_interval_def)
  qed
next
  show "in_unit_interval (JFloat (Finite 0.3))" by (simp add: in_unit_interval_def)
qed

theorem confidence_in_unit_interval_witness:
  "map_sum id fst (create_plan example_rounding example_hash example_json_loads
       (cached_planner\<lparr>llm_model := True\<rparr>) (reply_env 10 good_reply)
       (example_request ''Other''))
     = Inr \<lparr>plan = [''ResponseGenerationSkill''], confidence = JFloat (Finite 0.85),
            reasoning = JStr ''Generated by LLM planner'', cache_hit = False,
            generation_time = 0, fallback_used = False\<rparr>
   \<and> in_unit_interval (confidence
        \<lparr>plan = [''ResponseGenerationSkill''], confidence = JFloat (Finite 0.85),
         reasoning = JStr ''Generated by LLM planner'', cache_hit = False,
         generation_time = 0, fallback_used = False\<rparr>)"
proof -
  let ?P = "cached_planner\<lparr>llm_model := True\<rparr>"
  let ?w = "reply_env 10 good_reply"
  let ?u = "example_request ''Other''"
  let ?r = "\<lparr>plan = [''ResponseGenerationSkill''], confidence = JFloat (Finite 0.85),
            reasoning = JStr ''Generated by LLM planner'', cache_hit = False,
            generation_time = 0, fallback_used = False\<rparr>"
  have cache: "\<forall>k e. plan_cache ?P k = Some e \<longrightarrow> in_unit_interval (cached_confidence e)"
    by (simp add: cached_planner_def example_entry_def in_unit_interval_def)
  have cur: "\<forall>rp. curriculum_result ?w = Inr rp \<longrightarrow>
                in_unit_interval (JFloat (confidence_threshold rp))"
    by (simp add: reply_env_def example_env_def)
  have s: "llm_response ?w = Inr good_reply" by code_simp
  have p: "parse_llm_response example_json_loads ?P good_reply
       = Inr (Some (JObj [(''plan'', JArr [JStr ''ResponseGenerationSkill'']),
                          (''confidence'', JFloat (Finite 0.85))]))"
    by code_simp
  have llm: "\<forall>s pd c. llm_response ?w = Inr s \<longrightarrow>
                parse_llm_response example_json_loads ?P s = Inr (Some pd) \<longrightarrow>
                get_item pd ''confidence'' = Some c \<longrightarrow> in_unit_interval c"
    by (auto simp: s p get_item_def in_unit_interval_def)
  have e: "map_sum id fst (create_plan example_rounding example_hash example_json_loads ?P ?w ?u) = Inr ?r"
    by code_simp
  then obtain P' u' where run: "create_plan example_rounding example_hash example_json_loads ?P ?w ?u
       = Inr (?r, P', u')"
    by (cases "create_plan example_rounding example_hash example_json_loads ?P ?w ?u") auto
  from confidence_in_unit_interval[OF cache cur llm run] e show ?thesis by blast
qed

text \<open>The claim as stated fails: the model's reply names a registered skill with the
  confidence 5, and that is the confidence of the result.\<close>

theorem confidence_counterexample:
  "llm_response (reply_env 0 large_confidence_reply) = Inr large_confidence_reply
   \<and> map_sum id fst (create_plan example_rounding example_hash example_json_loads model_planner
          (reply_env 0 large_confidence_reply) (example_request ''Hello''))
     = Inr \<lparr>plan = [''ResponseGenerationSkill''], confidence = JInt 5,
            reasoning = JStr ''Generated by LLM planner'', cache_hit = False,
            generation_time = 0, fallback_used = False\<rparr>
   \<and> \<not> in_unit_interval (JInt 5)"
  by code_simp

subsection \<open>The names in a plan\<close>

lemma parse_llm_response_accepts:
  "parse_llm_response J P s = Inr (Some v) \<Longrightarrow> validate_generated_plan P v = Inr True"
  by (auto simp: parse_llm_response_unfold split: sum.splits if_splits)

lemma names_of_validated:
  assumes "parse_llm_response J P s = Inr (Some pd)" and "get_item pd ''plan'' = Some p"
  shows "\<forall>n\<in>set (names_of p). registered P n"
proof -
  from parse_llm_response_accepts[OF assms(1)] obtain d xs where
    "pd = JObj d" "map_of d ''plan'' = Some (JArr xs)"
    and xs: "\<forall>x\<in>set xs. \<exists>n. x = JStr n \<and> registered P n"
    by (auto simp: validate_generated_plan_True_iff)
  with assms(2) have p: "p = JArr xs" by (simp add: get_item_def)
  from xs show ?thesis unfolding p names_of_def by (induction xs) auto
qed

lemma get_default_fallback_plan_names:
  "\<forall>n\<in>set (get_default_fallback_plan P). registered P n \<or> n = ''ResponseGenerationSkill''"
  by (simp add: get_default_fallback_plan_cases)

lemma select_skills_names:
  assumes "\<forall>n\<in>set (fst start). registered P n" and "select_skills P q start = (p, parts)"
  shows "\<forall>n\<in>set p. registered P n \<or> n = ''ResponseGenerationSkill''"
  using assms get_default_fallback_plan_names[of P]
  by (auto simp: select_skills_def Let_def split: prod.splits if_splits)

lemma generate_fallback_plan_names:
  assumes "generate_fallback_plan P u = (Inr r, u')"
  shows "\<forall>n\<in>set (plan r). registered P n \<or> n = ''ResponseGenerationSkill''"
proof (cases "registered P ''MemoryRetrievalSkill''")
  case True
  from generate_fallback_plan_memory[OF True assms] obtain mode bag where
    c: "configure_retrieval P (lower (input_query u)) (intermediate_data u) = Inr (mode, bag)"
    by blast
  let ?start = "([''MemoryRetrievalSkill''],
                 [''Added '' @ lower mode @ '' memory retrieval for context''])"
  from assms True c have r: "plan r = fst (select_skills P (lower (input_query u)) ?start)"
    by (auto simp: generate_fallback_plan_def Let_def split: prod.splits)
  from True have "\<forall>n\<in>set (fst ?start). registered P n" by simp
  from select_skills_names[OF this, of "lower (input_query u)"] r show ?thesis
    by (cases "select_skills P (lower (input_query u)) ?start") auto
next
  case False
  let ?start = "([], []) :: string list \<times> string list"
  from assms False have r: "plan r = fst (select_skills P (lower (input_query u)) ?start)"
    by (auto simp: generate_fallback_plan_def Let_def split: prod.splits)
  have "\<forall>n\<in>set (fst ?start). registered P n" by simp
  from select_skills_names[OF this, of "lower (input_query u)"] r show ?thesis
    by (cases "select_skills P (lower (input_query u)) ?start") auto
qed

lemma registered_register_skill:
  "registered P n \<Longrightarrow> registered (register_skill P s) n"
  by (auto simp: registered_def register_skill_def dom_update image_iff)


text \<open>
  Claim C4, as the code has it. Every skill name in a returned plan is registered or is
  the name ResponseGenerationSkill, which the default plan holds also when no skill of
  that name is registered. This holds of a plan of the model (validated: all its names are
  registered), of the rule-based planner and of the error fallback; of a plan of the
  curriculum when the curriculum returns registered names only, for the planner does not
  validate it; and of a cached plan when it held as the plan was stored. The cache then
  holds such plans only, the call leaves the registry as it is, and registering a skill
  keeps every registered name registered.
\<close>

theorem returned_skills_registered:
  assumes cache: "\<forall>k e. plan_cache P k = Some e \<longrightarrow>
        (\<forall>n\<in>set (cached_plan e). registered P n \<or> n = ''ResponseGenerationSkill'')"
    and cur: "\<forall>rp. curriculum_result w = Inr rp \<longrightarrow> (\<forall>n\<in>set (skills rp). registered P n)"
    and run: "create_plan R H J P w u = Inr (r, P', u')"
  shows "(\<forall>n\<in>set (plan r). registered P n \<or> n = ''ResponseGenerationSkill'')
     \<and> (\<forall>k e. plan_cache P' k = Some e \<longrightarrow>
           (\<forall>n\<in>set (cached_plan e). registered P n \<or> n = ''ResponseGenerationSkill''))
     \<and> registered_skills P' = registered_skills P
     \<and> (\<forall>n. registered P n \<longrightarrow> registered (register_skill P s) n)"
proof -
  let ?Q = "\<lambda>p (c :: json). \<forall>n\<in>set p. registered P n \<or> n = ''ResponseGenerationSkill''"
  have "?Q (plan r) (confidence r)
     \<and> (\<forall>k e. plan_cache P' k = Some e \<longrightarrow> ?Q (cached_plan e) (cached_confidence e))"
  proof (rule create_plan_invariant[where Q = ?Q, OF _ _ _ run])
    fix k e assume "plan_cache P k = Some e"
    with cache show "?Q (cached_plan e) (cached_confidence e)" by blast
  next
    fix r0 u1 assume "generate_new_plan J P w u = (Inr r0, u1)"
    from generate_new_plan_cases[OF this] consider
      (c) rp where "curriculum_result w = Inr rp" "plan r0 = skills rp"
    | (m) s pd p where "parse_llm_response J P s = Inr (Some pd)"
        "get_item pd ''plan'' = Some p" "plan r0 = names_of p"
    | (f) "generate_fallback_plan P u = (Inr r0, u1)"
      by blast
    then show "?Q (plan r0) (confidence r0)"
    proof cases
      case c
      with cur show ?thesis by simp
    next
      case m
      from names_of_validated[OF m(1,2)] m(3) show ?thesis by simp
    next
      case f
      from generate_fallback_plan_names[OF f] show ?thesis .
    qed
  next
    show "?Q (get_default_fallback_plan P) (JFloat (Finite 0.3))"
      by (rule get_default_fallback_plan_names)
  qed
  moreover have "registered_skills P' = registered_skills P"
  proof -
    obtain x P1 u1 where t: "create_plan_try R H J P w u = (x, P1, u1)"
      using prod_cases3 by blast
    with run have "P' = P1" unfolding create_plan_unfold by (auto split: sum.splits)
    with create_plan_try_frame[OF t] show ?thesis by simp
  qed
  moreover have "\<forall>n. registered P n \<longrightarrow> registered (register_skill P s) n"
    using registered_register_skill by blast
  ultimately show ?thesis by blast
qed

theorem returned_skills_registered_witness:
  "map_sum id fst (create_plan example_rounding example_hash example_json_loads
       (cached_planner\<lparr>curriculum := True\<rparr>) (curriculum_env 10)
       (example_request ''Other''))
     = Inr \<lparr>plan = [''ResponseGenerationSkill''], confidence = JFloat (Finite 0.7),
            reasoning = JStr ''Curriculum foundation: direct'', cache_hit = False,
            generation_time = 0, fallback_used = False\<rparr>
   \<and> registered (cached_planner\<lparr>curriculum := True\<rparr>) ''ResponseGenerationSkill''
   \<and> list_all (registered (cached_planner\<lparr>curriculum := True\<rparr>))
        (plan \<lparr>plan = [''ResponseGenerationSkill''], confidence = JFloat (Finite 0.7),
            reasoning = JStr ''Curriculum foundation: direct'', cache_hit = False,
            generation_time = 0, fallback_used = False\<rparr>)"
proof -
  let ?P = "cached_planner\<lparr>curriculum := True\<rparr>"
  let ?w = "curriculum_env 10"
  let ?u = "example_request ''Other''"
  let ?r = "\<lparr>plan = [''ResponseGenerationSkill''], confidence = JFloat (Finite 0.7),
            reasoning = JStr ''Curriculum foundation: direct'', cache_hit = False,
            generation_time = 0, fallback_used = False\<rparr>"
  have reg: "registered ?P ''ResponseGenerationSkill''" by code_simp
  have cache: "\<forall>k e. plan_cache ?P k = Some e \<longrightarrow>
        (\<forall>n\<in>set (cached_plan e). registered ?P n \<or> n = ''ResponseGenerationSkill'')"
    by (simp add: cached_planner_def example_entry_def)
  have cur: "\<forall>rp. curriculum_result ?w = Inr rp \<longrightarrow> (\<forall>n\<in>set (skills rp). registered ?P n)"
    using reg by (simp add: curriculum_env_def example_reasoning_plan_def)
  have e: "map_sum id fst (create_plan example_rounding example_hash example_json_loads ?P ?w ?u) = Inr ?r"
    by code_simp
  then obtain P' u' where run: "create_plan example_rounding example_hash example_json_loads ?P ?w ?u
       = Inr (?r, P', u')"
    by (cases "create_plan example_rounding example_hash example_json_loads ?P ?w ?u") auto
  from returned_skills_registered[OF cache cur run, THEN conjunct1] reg
  have "list_all (registered ?P) (plan ?r)" by simp
  with e reg show ?thesis by blast
qed

text \<open>The claim as stated fails: with no skill registered the rule-based planner returns
  the response-generation skill, which the registry does not hold.\<close>

theorem unregistered_skill_counterexample:
  "registered_skills example_planner = []
   \<and> \<not> registered example_planner ''ResponseGenerationSkill''
   \<and> map_sum id fst (create_plan example_rounding example_hash example_json_loads example_planner
          (example_env 0) (example_request ''Hello''))
     = Inr \<lparr>plan = [''ResponseGenerationSkill''], confidence = JFloat (Finite 0.6),
            reasoning = JStr ''Used default fallback plan'', cache_hit = False,
            generation_time = 0, fallback_used = True\<rparr>"
  by code_simp

subsection \<open>Storing a plan and finding it again\<close>

lemma generate_skill_context_cache [simp]:
  "generate_skill_context (P\<lparr>plan_cache := c\<rparr>) = generate_skill_context P"
  by (simp add: generate_skill_context_def)

lemma generate_query_hash_cache [simp]:
  "generate_query_hash H (P\<lparr>plan_cache := c\<rparr>) u = generate_query_hash H P u"
  by (simp add: generate_query_hash_def)

lemma generate_skill_context_cong:
  "registered_skills P' = registered_skills P \<Longrightarrow>
     generate_skill_context P' = generate_skill_context P"
  by (simp add: generate_skill_context_def)

lemma generate_query_hash_cong:
  "registered_skills P' = registered_skills P \<Longrightarrow> input_query u' = input_query u \<Longrightarrow>
   active_profile u' = active_profile u \<Longrightarrow>
     generate_query_hash H P' u' = generate_query_hash H P u"
  by (simp add: generate_query_hash_def)

lemma generate_fallback_plan_request:
  "generate_fallback_plan P u = (x, u') \<Longrightarrow>
     input_query u' = input_query u \<and> active_profile u' = active_profile u"
  by (auto simp: generate_fallback_plan_def Let_def split: sum.splits prod.splits if_splits)

text \<open>The entry that \<^verbatim>\<open>_cache_plan\<close> stores, when the sweep that follows keeps it.\<close>

lemma cache_plan_lookup:
  "plan_cache (cache_plan R H P now u r) (generate_query_hash H P u) =
     (if total_seconds R (now (AtSweep (generate_query_hash H P u)) - now AtStore)
           \<le> plan_cache_ttl (config P)
      then Some \<lparr>cached_plan = plan r,
                 cached_confidence = confidence r,
                 created_at = now AtStore,
                 usage_count = 0,
                 query_hash = generate_query_hash H P u,
                 skill_context = generate_skill_context P\<rparr>
      else None)"
  by (simp add: cache_plan_def cleanup_cache_def Let_def is_cache_entry_valid_iff)

text \<open>A result of the block with \<open>fallback_used\<close> set is the rule-based planner's, and
  with caching enabled it has been stored.\<close>

lemma create_plan_try_rule_based:
  assumes t: "create_plan_try R H J P w u = (Inr r, P', u')"
    and fb: "fallback_used r"
    and on: "enable_plan_caching (config P)"
  shows "\<exists>P0 r0. check_plan_cache R H P (datetime_now w AtLookup) u = (None, P0)
      \<and> generate_fallback_plan P u = (Inr r0, u')
      \<and> r = r0\<lparr>generation_time := time_time w AtEnd - time_time w AtStart\<rparr>
      \<and> P' = cache_plan R H P0 (datetime_now w) u' r0"
proof -
  obtain res P0 where c: "check_plan_cache R H P (datetime_now w AtLookup) u = (res, P0)"
    by fastforce
  from check_plan_cache_shape[OF c] obtain c' where P0: "P0 = P\<lparr>plan_cache := c'\<rparr>" by blast
  from create_plan_try_result[OF t] fb obtain r0 where
    g: "generate_new_plan J P w u = (Inr r0, u')"
    and r: "r = r0\<lparr>generation_time := time_time w AtEnd - time_time w AtStart\<rparr>"
    by auto
  from generate_new_plan_cases[OF g] fb r
  have f: "generate_fallback_plan P u = (Inr r0, u')" by auto
  from generate_fallback_plan_fields[OF f] generate_fallback_plan_nonempty[OF f]
  have s: "gt_half (confidence r0) = Inr True" "plan r0 \<noteq> []"
    by (simp_all add: gt_half_def)
  have res: "res = None"
  proof (cases res)
    case None
    then show ?thesis .
  next
    case (Some e)
    with t c on fb show ?thesis by (auto simp: create_plan_try_def)
  qed
  from t c on g s res have "P' = cache_plan R H P0 (datetime_now w) u' r0"
    by (auto simp: create_plan_try_def P0 Let_def split: sum.splits)
  with c res f r show ?thesis by blast
qed


text \<open>
  Claim C10. With caching enabled, a result of the rule-based planner (\<open>fallback_used\<close>
  set, confidence 0.6) has a plan that is not empty and is stored in the cache under the
  request's hash, provided the sweep that follows the store reads the clock within the TTL
  of the store. A later call with the same query and profile on the planner as the first
  call left it, whose lookup reads the clock within the TTL of the store, returns the same
  plan and confidence with \<open>cache_hit\<close> set and \<open>fallback_used\<close> unset. Within the
  TTL is as the code measures it: the age that \<^verbatim>\<open>total_seconds()\<close> gives is at most
  the TTL.
\<close>

theorem rule_based_plan_cached:
  assumes on: "enable_plan_caching (config P)"
    and first: "create_plan R H J P w1 u1 = Inr (r1, P1, u1')"
    and fb: "fallback_used r1"
    and conf: "confidence r1 = JFloat (Finite 0.6)"
    and query: "input_query u2 = input_query u1"
    and profile: "active_profile u2 = active_profile u1"
    and sweep: "total_seconds R (datetime_now w1 (AtSweep (generate_query_hash H P u1))
                                 - datetime_now w1 AtStore)
                \<le> plan_cache_ttl (config P)"
    and lookup: "total_seconds R (datetime_now w2 AtLookup - datetime_now w1 AtStore)
                \<le> plan_cache_ttl (config P)"
  shows "plan r1 \<noteq> []
     \<and> plan_cache P1 (generate_query_hash H P u1) =
         Some \<lparr>cached_plan = plan r1,
               cached_confidence = JFloat (Finite 0.6),
               created_at = datetime_now w1 AtStore,
               usage_count = 0,
               query_hash = generate_query_hash H P u1,
               skill_context = generate_skill_context P\<rparr>
     \<and> (\<exists>r2 P2. create_plan R H J P1 w2 u2 = Inr (r2, P2, u2)
           \<and> plan r2 = plan r1 \<and> confidence r2 = confidence r1
           \<and> cache_hit r2 \<and> \<not> fallback_used r2)"
proof -
  let ?key = "generate_query_hash H P u1"
  let ?entry = "\<lparr>cached_plan = plan r1,
               cached_confidence = JFloat (Finite 0.6),
               created_at = datetime_now w1 AtStore,
               usage_count = 0,
               query_hash = ?key,
               skill_context = generate_skill_context P\<rparr>"
  obtain x Pa ua where t0: "create_plan_try R H J P w1 u1 = (x, Pa, ua)"
    using prod_cases3 by blast
  have t: "create_plan_try R H J P w1 u1 = (Inr r1, P1, u1')"
  proof (cases x)
    case (Inl e)
    with first conf t0 show ?thesis unfolding create_plan_unfold by auto
  next
    case (Inr r)
    with first t0 show ?thesis unfolding create_plan_unfold by auto
  qed
  from create_plan_try_rule_based[OF t fb on] obtain P0 r0 where
    c: "check_plan_cache R H P (datetime_now w1 AtLookup) u1 = (None, P0)"
    and f: "generate_fallback_plan P u1 = (Inr r0, u1')"
    and r: "r1 = r0\<lparr>generation_time := time_time w1 AtEnd - time_time w1 AtStart\<rparr>"
    and P1: "P1 = cache_plan R H P0 (datetime_now w1) u1' r0"
    by blast
  from check_plan_cache_shape[OF c] obtain c' where P0: "P0 = P\<lparr>plan_cache := c'\<rparr>" by blast
  from generate_fallback_plan_request[OF f]
  have k0: "generate_query_hash H P0 u1' = ?key"
    by (simp add: P0 generate_query_hash_def)
  have ne: "plan r1 \<noteq> []"
    using generate_fallback_plan_nonempty[OF f] r by simp
  have stored: "plan_cache P1 ?key = Some ?entry"
    using cache_plan_lookup[of R H P0 "datetime_now w1" u1' r0] sweep conf r
    unfolding P1 k0 by (simp add: P0)
  have frame: "registered_skills P1 = registered_skills P" "config P1 = config P"
    using cache_plan_frame[of R H P0 "datetime_now w1" u1' r0] unfolding P1 by (simp_all add: P0)
  have k1: "generate_query_hash H P1 u2 = ?key"
    using frame(1) query profile by (rule generate_query_hash_cong)
  have ctx: "generate_skill_context P1 = generate_skill_context P"
    using frame(1) by (rule generate_skill_context_cong)
  have valid: "is_cache_entry_valid R P1 (datetime_now w2 AtLookup) ?entry"
    using lookup by (simp add: is_cache_entry_valid_iff frame ctx)
  let ?hit = "?entry\<lparr>usage_count := usage_count ?entry + 1\<rparr>"
  have ch: "check_plan_cache R H P1 (datetime_now w2 AtLookup) u2 =
      (Some ?hit, P1\<lparr>plan_cache := (plan_cache P1)(?key \<mapsto> ?hit)\<rparr>)"
    unfolding check_plan_cache_cases k1 stored using valid by simp
  from on frame have on1: "enable_plan_caching (config P1)" by simp
  from create_plan_hit[OF on1 ch, of J] conf
  have "\<exists>r2 P2. create_plan R H J P1 w2 u2 = Inr (r2, P2, u2)
           \<and> plan r2 = plan r1 \<and> confidence r2 = confidence r1
           \<and> cache_hit r2 \<and> \<not> fallback_used r2"
    by simp
  with ne stored show ?thesis by blast
qed

theorem rule_based_plan_cached_witness:
  "create_plan_twice example_rounding example_hash example_json_loads response_planner
        (example_env 0) (example_request ''Hello'')
        (example_env 1800) (example_request ''Hello'')
       = Inr (\<lparr>plan = [''ResponseGenerationSkill''], confidence = JFloat (Finite 0.6),
               reasoning = JStr ''Added response generation as final step'',
               cache_hit = False, generation_time = 0, fallback_used = True\<rparr>,
              \<lparr>plan = [''ResponseGenerationSkill''], confidence = JFloat (Finite 0.6),
               reasoning = JStr ''Retrieved from cache (used 1 times)'',
               cache_hit = True, generation_time = 0, fallback_used = False\<rparr>)
   \<and> enable_plan_caching (config response_planner)
   \<and> (\<exists>P1 u1' r2 P2.
         create_plan example_rounding example_hash example_json_loads response_planner (example_env 0)
           (example_request ''Hello'')
         = Inr (\<lparr>plan = [''ResponseGenerationSkill''], confidence = JFloat (Finite 0.6),
                 reasoning = JStr ''Added response generation as final step'',
                 cache_hit = False, generation_time = 0, fallback_used = True\<rparr>, P1, u1')
       \<and> plan_cache P1 ''Hello|general|ResponseGenerationSkill'' = Some example_entry
       \<and> create_plan example_rounding example_hash example_json_loads P1 (example_env 1800)
           (example_request ''Hello'') = Inr (r2, P2, example_request ''Hello'')
       \<and> plan r2 = [''ResponseGenerationSkill''] \<and> cache_hit r2 \<and> \<not> fallback_used r2)"
proof -
  let ?P = response_planner
  let ?u = "example_request ''Hello''"
  let ?r1 = "\<lparr>plan = [''ResponseGenerationSkill''], confidence = JFloat (Finite 0.6),
               reasoning = JStr ''Added response generation as final step'',
               cache_hit = False, generation_time = 0, fallback_used = True\<rparr>"
  have tw: "create_plan_twice example_rounding example_hash example_json_loads ?P (example_env 0) ?u
        (example_env 1800) ?u
       = Inr (?r1,
              \<lparr>plan = [''ResponseGenerationSkill''], confidence = JFloat (Finite 0.6),
               reasoning = JStr ''Retrieved from cache (used 1 times)'',
               cache_hit = True, generation_time = 0, fallback_used = False\<rparr>)"
    by code_simp
  have on: "enable_plan_caching (config ?P)" by code_simp
  have e: "map_sum id fst (create_plan example_rounding example_hash example_json_loads ?P (example_env 0) ?u)
      = Inr ?r1" by code_simp
  then obtain P1 u1' where first:
    "create_plan example_rounding example_hash example_json_loads ?P (example_env 0) ?u = Inr (?r1, P1, u1')"
    by (cases "create_plan example_rounding example_hash example_json_loads ?P (example_env 0) ?u") auto
  have fb: "fallback_used ?r1" by simp
  have conf: "confidence ?r1 = JFloat (Finite 0.6)" by simp
  have sweep: "total_seconds example_rounding (datetime_now (example_env 0)
       (AtSweep (generate_query_hash example_hash ?P ?u)) - datetime_now (example_env 0) AtStore)
                \<le> plan_cache_ttl (config ?P)" by code_simp
  have lookup: "total_seconds example_rounding
       (datetime_now (example_env 1800) AtLookup - datetime_now (example_env 0) AtStore)
                \<le> plan_cache_ttl (config ?P)" by code_simp
  have k: "generate_query_hash example_hash ?P ?u = ''Hello|general|ResponseGenerationSkill''"
    by code_simp
  have c: "generate_skill_context ?P = ''ResponseGenerationSkill:1.0''" by code_simp
  have n: "datetime_now (example_env 0) AtStore = 0" by code_simp
  from rule_based_plan_cached[OF on first fb conf refl refl sweep lookup]
  have "plan_cache P1 ''Hello|general|ResponseGenerationSkill'' = Some example_entry
     \<and> (\<exists>r2 P2. create_plan example_rounding example_hash example_json_loads P1 (example_env 1800) ?u
             = Inr (r2, P2, ?u)
           \<and> plan r2 = [''ResponseGenerationSkill''] \<and> cache_hit r2 \<and> \<not> fallback_used r2)"
    by (simp add: k c n example_entry_def) blast
  with first tw on show ?thesis by blast
qed

subsection \<open>The skill context\<close>














subsection \<open>The lookup and the TTL\<close>

text \<open>
  Claim C3, as the code has it. The age that the lookup compares with the TTL is the
  float that \<^verbatim>\<open>total_seconds()\<close> gives for the time since the entry was created. A
  lookup returns an entry exactly when the cache holds one under the request's hash
  whose age is at most the TTL (not: strictly less) and whose skill context equals the
  current one; the entry returned is the stored one with its usage counter incremented by
  exactly 1, and it is what the cache then holds; an entry found invalid is evicted and
  nothing is returned; an entry is not returned once its age, so rounded, exceeds the TTL.
  An entry whose exact age is at most the TTL is returned, when rounding carries no such
  age above the TTL: at exactly T + ttl it still is. And \<^verbatim>\<open>create_plan\<close>, with caching
  enabled, returns the cached plan and confidence of an entry that the lookup returns,
  with \<open>cache_hit\<close> set and \<open>fallback_used\<close> unset.
\<close>

theorem cache_lookup_valid_only:
  assumes "check_plan_cache R H P now u = (res, P')"
  shows "(\<forall>e'. res = Some e' \<longrightarrow>
            (\<exists>e. plan_cache P (generate_query_hash H P u) = Some e
               \<and> total_seconds R (now - created_at e) \<le> plan_cache_ttl (config P)
               \<and> skill_context e = generate_skill_context P
               \<and> e' = e\<lparr>usage_count := usage_count e + 1\<rparr>
               \<and> plan_cache P' (generate_query_hash H P u) = Some e'))
    \<and> (\<forall>e. plan_cache P (generate_query_hash H P u) = Some e \<longrightarrow>
            \<not> (total_seconds R (now - created_at e) \<le> plan_cache_ttl (config P)
               \<and> skill_context e = generate_skill_context P) \<longrightarrow>
            res = None \<and> plan_cache P' (generate_query_hash H P u) = None)
    \<and> (\<forall>e. plan_cache P (generate_query_hash H P u) = Some e \<longrightarrow>
            total_seconds R (now - created_at e) > plan_cache_ttl (config P) \<longrightarrow> res = None)
    \<and> (\<forall>e. plan_cache P (generate_query_hash H P u) = Some e \<longrightarrow>
            total_seconds R (now - created_at e) \<le> plan_cache_ttl (config P) \<longrightarrow>
            skill_context e = generate_skill_context P \<longrightarrow>
            res = Some (e\<lparr>usage_count := usage_count e + 1\<rparr>))
    \<and> (\<forall>e. plan_cache P (generate_query_hash H P u) = Some e \<longrightarrow>
            (\<forall>x. x \<le> plan_cache_ttl (config P) \<longrightarrow> R x \<le> plan_cache_ttl (config P)) \<longrightarrow>
            real_of_int (now - created_at e) / 1000000 \<le> plan_cache_ttl (config P) \<longrightarrow>
            skill_context e = generate_skill_context P \<longrightarrow>
            res = Some (e\<lparr>usage_count := usage_count e + 1\<rparr>))
    \<and> (\<forall>e'. res = Some e' \<longrightarrow> enable_plan_caching (config P) \<longrightarrow>
            datetime_now w AtLookup = now \<longrightarrow>
            (\<exists>r. create_plan R H J P w u = Inr (r, P', u)
               \<and> plan r = cached_plan e' \<and> confidence r = cached_confidence e'
               \<and> cache_hit r \<and> \<not> fallback_used r))"
proof (intro conjI allI impI)
  fix e' assume "res = Some e'"
  with assms show "\<exists>e. plan_cache P (generate_query_hash H P u) = Some e
               \<and> total_seconds R (now - created_at e) \<le> plan_cache_ttl (config P)
               \<and> skill_context e = generate_skill_context P
               \<and> e' = e\<lparr>usage_count := usage_count e + 1\<rparr>
               \<and> plan_cache P' (generate_query_hash H P u) = Some e'"
    by (auto simp: check_plan_cache_cases is_cache_entry_valid_iff
        split: option.splits if_splits)
next
  fix e assume "plan_cache P (generate_query_hash H P u) = Some e"
    "\<not> (total_seconds R (now - created_at e) \<le> plan_cache_ttl (config P)
               \<and> skill_context e = generate_skill_context P)"
  with assms show "res = None" "plan_cache P' (generate_query_hash H P u) = None"
    by (auto simp: check_plan_cache_cases is_cache_entry_valid_iff)
next
  fix e assume "plan_cache P (generate_query_hash H P u) = Some e"
    "total_seconds R (now - created_at e) > plan_cache_ttl (config P)"
  with assms show "res = None"
    by (auto simp: check_plan_cache_cases is_cache_entry_valid_iff)
next
  fix e assume "plan_cache P (generate_query_hash H P u) = Some e"
    "total_seconds R (now - created_at e) \<le> plan_cache_ttl (config P)"
    "skill_context e = generate_skill_context P"
  with assms show "res = Some (e\<lparr>usage_count := usage_count e + 1\<rparr>)"
    by (auto simp: check_plan_cache_cases is_cache_entry_valid_iff)
next
  fix e assume e: "plan_cache P (generate_query_hash H P u) = Some e"
    and round: "\<forall>x. x \<le> plan_cache_ttl (config P) \<longrightarrow> R x \<le> plan_cache_ttl (config P)"
    and age: "real_of_int (now - created_at e) / 1000000 \<le> plan_cache_ttl (config P)"
    and ctx: "skill_context e = generate_skill_context P"
  from round age have "total_seconds R (now - created_at e) \<le> plan_cache_ttl (config P)"
    unfolding total_seconds_def by blast
  with assms e ctx show "res = Some (e\<lparr>usage_count := usage_count e + 1\<rparr>)"
    by (auto simp: check_plan_cache_cases is_cache_entry_valid_iff)
next
  fix e' assume "res = Some e'" "enable_plan_caching (config P)" "datetime_now w AtLookup = now"
  with assms create_plan_hit[of P R H w u e' P' J]
  show "\<exists>r. create_plan R H J P w u = Inr (r, P', u)
               \<and> plan r = cached_plan e' \<and> confidence r = cached_confidence e'
               \<and> cache_hit r \<and> \<not> fallback_used r"
    by simp
qed

theorem cache_lookup_valid_only_witness:
  "fst (check_plan_cache example_rounding example_hash cached_planner (seconds 100)
          (example_request ''Hello''))
     = Some (example_entry\<lparr>usage_count := 1\<rparr>)
   \<and> plan_cache (snd (check_plan_cache example_rounding example_hash cached_planner (seconds 100)
                        (example_request ''Hello'')))
       (generate_query_hash example_hash cached_planner (example_request ''Hello''))
     = Some (example_entry\<lparr>usage_count := 1\<rparr>)
   \<and> fst (check_plan_cache example_rounding example_hash cached_planner (seconds 3601)
            (example_request ''Hello''))
     = None
   \<and> plan_cache (snd (check_plan_cache example_rounding example_hash cached_planner (seconds 3601)
                        (example_request ''Hello'')))
       (generate_query_hash example_hash cached_planner (example_request ''Hello''))
     = None
   \<and> fst (check_plan_cache example_rounding example_hash cached_planner (seconds 3600)
            (example_request ''Hello''))
     = Some (example_entry\<lparr>usage_count := 1\<rparr>)
   \<and> real_of_int (seconds 17179869184 + 1 - created_at example_entry) / 1000000
       > plan_cache_ttl (config long_lived_planner)
   \<and> fst (check_plan_cache example_rounding example_hash long_lived_planner
            (seconds 17179869184 + 1) (example_request ''Hello''))
     = Some (example_entry\<lparr>usage_count := 1\<rparr>)
   \<and> (\<exists>r. create_plan example_rounding example_hash example_json_loads cached_planner (example_env 100)
            (example_request ''Hello'')
          = Inr (r, snd (check_plan_cache example_rounding example_hash cached_planner (seconds 100)
                           (example_request ''Hello'')), example_request ''Hello'')
        \<and> plan r = [''ResponseGenerationSkill''] \<and> cache_hit r \<and> \<not> fallback_used r)"
proof -
  let ?u = "example_request ''Hello''"
  let ?k = "generate_query_hash example_hash cached_planner ?u"
  let ?c1 = "check_plan_cache example_rounding example_hash cached_planner (seconds 100) ?u"
  let ?c2 = "check_plan_cache example_rounding example_hash cached_planner (seconds 3601) ?u"
  let ?c3 = "check_plan_cache example_rounding example_hash cached_planner (seconds 3600) ?u"
  let ?c4 = "check_plan_cache example_rounding example_hash long_lived_planner
               (seconds 17179869184 + 1) ?u"
  have e: "plan_cache cached_planner ?k = Some example_entry" by code_simp
  have e4: "plan_cache long_lived_planner
              (generate_query_hash example_hash long_lived_planner ?u) = Some example_entry"
    by code_simp
  have f1: "fst ?c1 = Some (example_entry\<lparr>usage_count := 1\<rparr>)" by code_simp
  have late: "total_seconds example_rounding (seconds 3601 - created_at example_entry)
                > plan_cache_ttl (config cached_planner)"
    by code_simp
  have round: "\<forall>x. x \<le> plan_cache_ttl (config cached_planner)
                 \<longrightarrow> example_rounding x \<le> plan_cache_ttl (config cached_planner)"
    by (simp add: example_rounding_def cached_planner_def response_planner_def
        register_skill_def example_planner_def)
  have at_ttl: "real_of_int (seconds 3600 - created_at example_entry) / 1000000
                  \<le> plan_cache_ttl (config cached_planner)"
    by code_simp
  have ctx: "skill_context example_entry = generate_skill_context cached_planner"
    by code_simp
  have ctx4: "skill_context example_entry = generate_skill_context long_lived_planner"
    by code_simp
  have past: "real_of_int (seconds 17179869184 + 1 - created_at example_entry) / 1000000
                > plan_cache_ttl (config long_lived_planner)"
    by code_simp
  have rounded: "total_seconds example_rounding (seconds 17179869184 + 1 - created_at example_entry)
                   \<le> plan_cache_ttl (config long_lived_planner)"
    by code_simp
  have u1: "usage_count example_entry + 1 = 1" by code_simp
  have on: "enable_plan_caching (config cached_planner)" by code_simp
  have now: "datetime_now (example_env 100) AtLookup = seconds 100" by code_simp
  have p: "cached_plan (example_entry\<lparr>usage_count := 1\<rparr>) = [''ResponseGenerationSkill'']"
    by code_simp
  note T1 = cache_lookup_valid_only[of example_rounding example_hash cached_planner "seconds 100"
      ?u "fst ?c1" "snd ?c1" "example_env 100" example_json_loads, OF prod.collapse[symmetric]]
  note T2 = cache_lookup_valid_only[of example_rounding example_hash cached_planner "seconds 3601"
      ?u "fst ?c2" "snd ?c2" "example_env 100" example_json_loads, OF prod.collapse[symmetric]]
  note T3 = cache_lookup_valid_only[of example_rounding example_hash cached_planner "seconds 3600"
      ?u "fst ?c3" "snd ?c3" "example_env 100" example_json_loads, OF prod.collapse[symmetric]]
  note T4 = cache_lookup_valid_only[of example_rounding example_hash long_lived_planner
      "seconds 17179869184 + 1"
      ?u "fst ?c4" "snd ?c4" "example_env 100" example_json_loads, OF prod.collapse[symmetric]]
  from T1[THEN conjunct1, rule_format, OF f1] f1
  have 1: "plan_cache (snd ?c1) ?k = Some (example_entry\<lparr>usage_count := 1\<rparr>)" by auto
  from T2[THEN conjunct2, THEN conjunct2, THEN conjunct1, rule_format, OF e late]
  have 2: "fst ?c2 = None" .
  from T2[THEN conjunct2, THEN conjunct1, rule_format, OF e] late
  have 3: "plan_cache (snd ?c2) ?k = None" by simp
  from T3[THEN conjunct2, THEN conjunct2, THEN conjunct2, THEN conjunct2, THEN conjunct1,
      rule_format, OF e round[rule_format] at_ttl ctx] u1
  have 4: "fst ?c3 = Some (example_entry\<lparr>usage_count := 1\<rparr>)" by simp
  from T4[THEN conjunct2, THEN conjunct2, THEN conjunct2, THEN conjunct1,
      rule_format, OF e4 rounded ctx4] u1
  have 5: "fst ?c4 = Some (example_entry\<lparr>usage_count := 1\<rparr>)" by simp
  from T1[THEN conjunct2, THEN conjunct2, THEN conjunct2, THEN conjunct2, THEN conjunct2,
      rule_format, OF f1 on now] p
  have 6: "\<exists>r. create_plan example_rounding example_hash example_json_loads cached_planner (example_env 100) ?u
          = Inr (r, snd ?c1, ?u)
        \<and> plan r = [''ResponseGenerationSkill''] \<and> cache_hit r \<and> \<not> fallback_used r"
    by auto
  from f1 1 2 3 4 past 5 6 show ?thesis by blast
qed

text \<open>The claim as stated fails at the boundary: an entry created at time 0 under a TTL of
  3600 seconds is returned at time 3600, when its age is not strictly less than the TTL,
  and the second of two calls of \<^verbatim>\<open>create_plan\<close> at times 0 and 3600 is a cache hit.
  Under a TTL of \<open>2^34\<close> seconds, the entry is still returned one microsecond after
  T + ttl, its age being rounded to the TTL.\<close>

theorem cache_hit_at_ttl_counterexample:
  "plan_cache_ttl (config cached_planner) = 3600
   \<and> created_at example_entry = 0
   \<and> \<not> (real_of_int (seconds 3600 - created_at example_entry) / 1000000
          < plan_cache_ttl (config cached_planner))
   \<and> fst (check_plan_cache example_rounding example_hash cached_planner (seconds 3600)
            (example_request ''Hello''))
       = Some (example_entry\<lparr>usage_count := 1\<rparr>)
   \<and> create_plan_twice example_rounding example_hash example_json_loads response_planner
        (example_env 0) (example_request ''Hello'')
        (example_env 3600) (example_request ''Hello'')
       = Inr (\<lparr>plan = [''ResponseGenerationSkill''], confidence = JFloat (Finite 0.6),
               reasoning = JStr ''Added response generation as final step'',
               cache_hit = False, generation_time = 0, fallback_used = True\<rparr>,
              \<lparr>plan = [''ResponseGenerationSkill''], confidence = JFloat (Finite 0.6),
               reasoning = JStr ''Retrieved from cache (used 1 times)'',
               cache_hit = True, generation_time = 0, fallback_used = False\<rparr>)
   \<and> plan_cache_ttl (config long_lived_planner) = 17179869184
   \<and> real_of_int (seconds 17179869184 + 1 - created_at example_entry) / 1000000
       > plan_cache_ttl (config long_lived_planner)
   \<and> fst (check_plan_cache example_rounding example_hash long_lived_planner
            (seconds 17179869184 + 1) (example_request ''Hello''))
       = Some (example_entry\<lparr>usage_count := 1\<rparr>)"
  by code_simp

subsection \<open>The validator of the model's reply\<close>















subsection \<open>Registry changes and the cache\<close>






end
